theory Spec2Isabelle
  imports Complex_Main
begin

section \<open>Common data\<close>

text \<open>
  Affine transforms are numpy 2-d arrays of float64; they are modelled as lists of
  rows over the reals (rounding and NaN are left out).  Exceptions of the source are
  values of \<open>pyerr\<close>; a function that can raise returns \<open>pyerr + 'a\<close>.
\<close>

type_synonym matrix = "real list list"

datatype pyerr =
  ValueError | IndexError | KeyError | ZeroDivisionError | RuntimeError | AttributeError

text \<open>\<^verbatim>\<open>np.eye(n)\<close>\<close>

definition np_eye :: "nat \<Rightarrow> matrix" where
  "np_eye n = map (\<lambda>i. map (\<lambda>j. if i = j then 1 else 0) [0..<n]) [0..<n]"

section \<open>The registration engine\<close>

text \<open>
  Both \<^verbatim>\<open>affine_align\<close> and \<^verbatim>\<open>deformable_align\<close> run the same three
  calls inside one \<^verbatim>\<open>try\<close> block:
  \<^verbatim>\<open>
    initial_metric_value = irm.MetricEvaluate(fix, mov)
    irm.Execute(fix, mov)
    final_metric_value = irm.MetricEvaluate(fix, mov)
  \<close>
  The engine is an external collaborator.  A run of it is the outcome of each of the
  three calls: a raised exception or a value.  \<open>execute\<close> carries the value the
  function builds from the transform that \<^verbatim>\<open>Execute\<close> optimised in place.
\<close>

record 'r irm_run =
  metric_initial :: "pyerr + real"
  execute :: "pyerr + 'r"
  metric_final :: "pyerr + real"

text \<open>The body of the \<^verbatim>\<open>try\<close> block: the first exception ends it.\<close>

definition try_register :: "'r irm_run \<Rightarrow> pyerr + (real \<times> 'r \<times> real)" where
  "try_register run =
     (case metric_initial run of
        Inl e \<Rightarrow> Inl e
      | Inr initial_metric_value \<Rightarrow>
          (case execute run of
             Inl e \<Rightarrow> Inl e
           | Inr optimised \<Rightarrow>
               (case metric_final run of
                  Inl e \<Rightarrow> Inl e
                | Inr final_metric_value \<Rightarrow>
                    Inr (initial_metric_value, optimised, final_metric_value))))"

text \<open>
  The \<^verbatim>\<open>except Exception\<close> clause and the test
  \<^verbatim>\<open>if final_metric_value < initial_metric_value\<close> that follows it.
\<close>

definition result_or_default :: "'r irm_run \<Rightarrow> 'r \<Rightarrow> 'r" where
  "result_or_default run dflt =
     (case try_register run of
        Inl e \<Rightarrow> dflt
      | Inr (initial_metric_value, optimised, final_metric_value) \<Rightarrow>
          if final_metric_value < initial_metric_value then optimised else dflt)"

text \<open>The engine raises when one of its three calls does.\<close>

definition engine_raises :: "'r irm_run \<Rightarrow> bool" where
  "engine_raises run \<longleftrightarrow>
     isl (metric_initial run) \<or> isl (execute run) \<or> isl (metric_final run)"

section \<open>affine_align\<close>

text \<open>
  \<^verbatim>\<open>initial_condition\<close> is \<^verbatim>\<open>None\<close>, a string or a numpy array.
\<close>

datatype initial_condition = IC_None | IC_Str string | IC_Array matrix

text \<open>
  \<^verbatim>\<open>
    if default is None: default = np.eye(fix.ndim + 1)
    initial_transform_given = isinstance(initial_condition, np.ndarray)
    if initial_transform_given and np.all(default == np.eye(fix.ndim + 1)):
        default = initial_condition
  \<close>
  \<^verbatim>\<open>np.all(default == np.eye(n))\<close> on two arrays of one shape is equality of
  all entries, which is equality of the lists of rows.
\<close>

definition affine_default :: "nat \<Rightarrow> matrix option \<Rightarrow> initial_condition \<Rightarrow> matrix" where
  "affine_default ndim default_arg initial_condition =
     (let default1 = (case default_arg of None \<Rightarrow> np_eye (ndim + 1) | Some d \<Rightarrow> d)
      in case initial_condition of
           IC_Array m \<Rightarrow> if default1 = np_eye (ndim + 1) then m else default1
         | _ \<Rightarrow> default1)"

text \<open>
  The transform handed to the engine:
  \<^verbatim>\<open>rigid_transform_constructor()\<close>, \<^verbatim>\<open>ut.matrix_to_euler_transform(m)\<close>,
  \<^verbatim>\<open>sitk.AffineTransform(ndims)\<close> or \<^verbatim>\<open>ut.matrix_to_affine_transform(m)\<close>.
\<close>

datatype init_transform =
  Euler_Identity | Euler_Of matrix | Affine_Identity | Affine_Of matrix

text \<open>
  \<^verbatim>\<open>
    initial_condition = np.eye(ndims+1)
    initial_condition[:ndims, -1] = x
  \<close>
  where \<open>x\<close> is the translation found by the centred initialiser (\<open>ndims\<close> numbers).
\<close>

definition center_matrix :: "nat \<Rightarrow> real list \<Rightarrow> matrix" where
  "center_matrix ndims x =
     map (\<lambda>i. map (\<lambda>j. if i < ndims \<and> j = ndims then x ! i
                         else if i = j then 1 else 0) [0..<ndims + 1]) [0..<ndims + 1]"

definition affine_initial_transform ::
  "nat \<Rightarrow> bool \<Rightarrow> initial_condition \<Rightarrow> real list \<Rightarrow> init_transform" where
  "affine_initial_transform ndims rigid initial_condition center_x =
     (let (initial_condition1, initial_transform_given) =
            (case initial_condition of
               IC_Str s \<Rightarrow>
                 if s = ''CENTER'' then (IC_Array (center_matrix ndims center_x), True)
                 else (initial_condition, False)
             | IC_Array m \<Rightarrow> (initial_condition, True)
             | IC_None \<Rightarrow> (initial_condition, False))
      in case initial_condition1 of
           IC_Array m \<Rightarrow>
             if rigid \<and> \<not> initial_transform_given then Euler_Identity
             else if rigid \<and> initial_transform_given then Euler_Of m
             else if \<not> rigid \<and> \<not> initial_transform_given then Affine_Identity
             else Affine_Of m
         | _ \<Rightarrow> if rigid then Euler_Identity else Affine_Identity)"

text \<open>
  \<open>irm\<close> gives the engine's run for the transform it is started from; \<open>center_x\<close> is
  the translation of \<^verbatim>\<open>sitk.CenteredTransformInitializer\<close>.
\<close>

definition affine_align ::
  "nat \<Rightarrow> bool \<Rightarrow> initial_condition \<Rightarrow> matrix option \<Rightarrow> real list \<Rightarrow>
   (init_transform \<Rightarrow> matrix irm_run) \<Rightarrow> matrix" where
  "affine_align ndim rigid initial_condition default_arg center_x irm =
     (let default1 = affine_default ndim default_arg initial_condition;
          transform = affine_initial_transform ndim rigid initial_condition center_x
      in result_or_default (irm transform) default1)"

section \<open>deformable_align\<close>

text \<open>Python's \<^verbatim>\<open>int(x)\<close> on a float drops the fraction (rounds towards zero).\<close>

definition py_int :: "real \<Rightarrow> int" where
  "py_int r = (if 0 \<le> r then \<lfloor>r\<rfloor> else \<lceil>r\<rceil>)"

text \<open>
  Python floats are IEEE doubles.  A double is read as the real number it stands for,
  and an operation on doubles gives the exact result rounded to the nearest double,
  ties to the even mantissa.  \<open>float64\<close> is that rounding for results in the normal
  range (overflow and subnormal numbers are left out): the mantissa has 53 bits.
\<close>

definition round_half_even :: "real \<Rightarrow> int" where
  "round_half_even r =
     (let f = \<lfloor>r\<rfloor>
      in if r - of_int f < 1 / 2 then f
         else if r - of_int f > 1 / 2 then f + 1
         else if even f then f else f + 1)"

definition float64 :: "real \<Rightarrow> real" where
  "float64 x =
     (if x = 0 then 0
      else (let e = \<lfloor>log 2 \<bar>x\<bar>\<rfloor> - 52
            in of_int (round_half_even (x / 2 powr of_int e)) * 2 powr of_int e))"

text \<open>
  \<^verbatim>\<open>
    z = control_point_spacing * control_point_levels[0]
    initial_cp_grid = [max(1, int(x*y/z)) for x, y in zip(fix.GetSize(), fix.GetSpacing())]
  \<close>
  \<open>fix_size\<close> and \<open>fix_spacing\<close> are those of the fixed image after skip sampling
  (SimpleITK images have two or three axes), the spacings and
  \<^verbatim>\<open>control_point_spacing\<close> are doubles, the sizes and levels are integers, which
  Python turns into doubles before it multiplies.  An empty
  \<^verbatim>\<open>control_point_levels\<close> raises IndexError, a zero \<open>z\<close> raises at the first
  division.
\<close>

definition initial_cp_grid :: "int list \<Rightarrow> real list \<Rightarrow> real \<Rightarrow> int list \<Rightarrow> pyerr + int list" where
  "initial_cp_grid fix_size fix_spacing control_point_spacing control_point_levels =
     (case control_point_levels of
        [] \<Rightarrow> Inl IndexError
      | level0 # _ \<Rightarrow>
          (let z = float64 (control_point_spacing * float64 (real_of_int level0))
           in if z = 0 \<and> zip fix_size fix_spacing \<noteq> [] then Inl ZeroDivisionError
              else Inr (map (\<lambda>(x, y).
                              max 1 (py_int (float64 (float64 (float64 (real_of_int x) * y) / z))))
                            (zip fix_size fix_spacing))))"

text \<open>
  What \<open>deformable_align\<close> returns: the pair (params, field) it has computed, or the
  object the caller gave as \<^verbatim>\<open>default\<close>.
\<close>

datatype ('r, 'o) returned = Computed 'r | Given 'o

text \<open>
  \<^verbatim>\<open>not default\<close>: true for \<^verbatim>\<open>None\<close>, else the negation of the object's truth
  value.  \<open>truth\<close> is Python's \<^verbatim>\<open>bool\<close> on the caller's object (false for
  \<^verbatim>\<open>()\<close>, \<^verbatim>\<open>[]\<close> and \<^verbatim>\<open>0\<close>, true for a non-empty tuple, ValueError for a
  numpy array of several elements).
\<close>

definition not_default :: "'o option \<Rightarrow> ('o \<Rightarrow> pyerr + bool) \<Rightarrow> pyerr + bool" where
  "not_default default_arg truth =
     (case default_arg of
        None \<Rightarrow> Inr True
      | Some d \<Rightarrow> (case truth d of Inl e \<Rightarrow> Inl e | Inr b \<Rightarrow> Inr (\<not> b)))"

text \<open>
  \<^verbatim>\<open>
    if not default:
        params = ...; field = ...
        default = (params, field)
    try: ...
  \<close>
  \<open>identity_result grid\<close> is the pair (params, field) computed from the unoptimised
  B-spline transform on the grid; \<open>irm grid\<close> is the engine's run on that transform,
  its \<open>execute\<close> the pair computed from the optimised one.
\<close>

definition deformable_align ::
  "int list \<Rightarrow> real list \<Rightarrow> real \<Rightarrow> int list \<Rightarrow> 'o option \<Rightarrow> ('o \<Rightarrow> pyerr + bool) \<Rightarrow>
   (int list \<Rightarrow> 'r) \<Rightarrow> (int list \<Rightarrow> 'r irm_run) \<Rightarrow> pyerr + ('r, 'o) returned" where
  "deformable_align fix_size fix_spacing control_point_spacing control_point_levels default_arg
     truth identity_result irm =
     (case initial_cp_grid fix_size fix_spacing control_point_spacing control_point_levels of
        Inl e \<Rightarrow> Inl e
      | Inr grid \<Rightarrow>
          (case not_default default_arg truth of
             Inl e \<Rightarrow> Inl e
           | Inr no_default \<Rightarrow>
               (let default1 = (case default_arg of
                                  None \<Rightarrow> Computed (identity_result grid)
                                | Some d \<Rightarrow> if no_default then Computed (identity_result grid)
                                            else Given d)
                in case try_register (irm grid) of
                     Inl e \<Rightarrow> Inr default1
                   | Inr (initial_metric_value, optimised, final_metric_value) \<Rightarrow>
                       if final_metric_value < initial_metric_value
                       then Inr (Computed optimised)
                       else Inr default1)))"

text \<open>
  The grid as the specification words it, the physical size over the coarsest
  spacing, rounded to the nearest integer (used only to compare with
  \<open>initial_cp_grid\<close>).
\<close>

definition spec_cp_grid :: "int list \<Rightarrow> real list \<Rightarrow> real \<Rightarrow> int list \<Rightarrow> int list" where
  "spec_cp_grid fix_size fix_spacing control_point_spacing control_point_levels =
     map (\<lambda>(x, y). max 1 (round (real_of_int x * y /
            (control_point_spacing * real_of_int (hd control_point_levels)))))
         (zip fix_size fix_spacing)"

section \<open>feature_point_ransac_affine_align\<close>

text \<open>
  Spot sets are 2-d arrays, one row per spot.  The blob detector gives rows of four
  numbers, three coordinates and an intensity.
\<close>

type_synonym spots = "real list list"

text \<open>
  The collaborators of the stage, each with the images it is called on already applied:
  \<^verbatim>\<open>features.blob_detection\<close> on the fixed and on the moving image,
  \<^verbatim>\<open>features.get_contexts\<close> on each image, \<^verbatim>\<open>features.pairwise_correlation\<close>,
  \<^verbatim>\<open>features.match_points\<close> and \<^verbatim>\<open>cv2.estimateAffine3D\<close>.  The fitter returns
  its success flag, the 3x4 matrix (\<^verbatim>\<open>None\<close> when it has none) and the inliers.
\<close>

record ('ctx, 'corr, 'inl) ransac_env =
  blob_detection_fix :: spots
  blob_detection_mov :: spots
  get_contexts_fix :: "spots \<Rightarrow> 'ctx"
  get_contexts_mov :: "spots \<Rightarrow> 'ctx"
  pairwise_correlation :: "'ctx \<Rightarrow> 'ctx \<Rightarrow> 'corr"
  match_points :: "spots \<Rightarrow> spots \<Rightarrow> 'corr \<Rightarrow> spots \<times> spots"
  estimateAffine3D :: "spots \<Rightarrow> spots \<Rightarrow> int \<times> matrix option \<times> 'inl"

text \<open>
  \<^verbatim>\<open>
    sort_idx = np.argsort(fix_spots[:, 3])[::-1]
    fix_spots = fix_spots[sort_idx, :3][:nspots]
  \<close>
  Column 3 of an array with fewer than four columns raises IndexError.  Among equal
  intensities numpy's order is not fixed; the model takes the stable one.
\<close>

definition sort_spots :: "spots \<Rightarrow> nat \<Rightarrow> pyerr + spots" where
  "sort_spots spots_arg nspots =
     (if \<exists>row \<in> set spots_arg. length row < 4 then Inl IndexError
      else Inr (take nspots (map (take 3) (rev (sort_key (\<lambda>row. row ! 3) spots_arg)))))"

text \<open>
  \<^verbatim>\<open>fix_spots * fix_spacing\<close>: an (N, 3) array times a spacing of three numbers
  (or of one, which numpy broadcasts); any other length raises ValueError.
\<close>

definition to_physical :: "spots \<Rightarrow> real list \<Rightarrow> pyerr + spots" where
  "to_physical spots_arg spacing =
     (if length spacing = 3 then Inr (map (\<lambda>row. map2 (*) row spacing) spots_arg)
      else if length spacing = 1 then Inr (map (map (\<lambda>v. v * hd spacing)) spots_arg)
      else Inl ValueError)"

text \<open>\<^verbatim>\<open>np.diag\<close> of a 2-d array: the entries \<open>(i, i)\<close>.\<close>

definition np_diag :: "matrix \<Rightarrow> real list" where
  "np_diag a = map (\<lambda>i. a ! i ! i) [0..<min (length a) (length (hd a))]"

text \<open>
  \<^verbatim>\<open>
    affine = np.eye(fix.ndim + 1)
    affine[:fix.ndim, :] = Aff
  \<close>
  The fitter's matrix is 3x4; the assignment raises ValueError unless that is the
  shape of the rows assigned to.
\<close>

definition augment :: "nat \<Rightarrow> matrix \<Rightarrow> pyerr + matrix" where
  "augment ndim aff =
     (if length aff = ndim \<and> (\<forall>row \<in> set aff. length row = ndim + 1)
      then Inr (aff @ [last (np_eye (ndim + 1))])
      else Inl ValueError)"

record ransac_args =
  fix_ndim :: nat
  fix_spacing :: "real list"
  mov_spacing :: "real list"
  nspots :: nat
  diagonal_constraint :: real
  fix_spots :: "spots option"
  mov_spots :: "spots option"
  default_transform :: "matrix option"

text \<open>
  The function from the first spot count on; \<open>fix_spacing\<close> and \<open>mov_spacing\<close> are
  the spacings after the static transforms and skip sampling.  The flag \<open>r\<close> of the
  fitter is unpacked and not read again; \<^verbatim>\<open>np.diag(None)\<close> raises ValueError
  (its input must be 1-d or 2-d).
\<close>

definition feature_point_ransac_affine_align ::
  "ransac_args \<Rightarrow> ('ctx, 'corr, 'inl) ransac_env \<Rightarrow> pyerr + matrix" where
  "feature_point_ransac_affine_align args env =
     (let default1 = (case default_transform args of
                        None \<Rightarrow> np_eye (fix_ndim args + 1) | Some d \<Rightarrow> d);
          fix_spots1 = (case fix_spots args of
                          None \<Rightarrow> blob_detection_fix env | Some s \<Rightarrow> s)
      in if length fix_spots1 < 100 then Inr default1
         else
           (let mov_spots1 = (case mov_spots args of
                                None \<Rightarrow> blob_detection_mov env | Some s \<Rightarrow> s)
            in if length mov_spots1 < 100 then Inr default1
               else
                 (case sort_spots fix_spots1 (nspots args) of
                    Inl e \<Rightarrow> Inl e
                  | Inr fix_spots2 \<Rightarrow>
                 (case sort_spots mov_spots1 (nspots args) of
                    Inl e \<Rightarrow> Inl e
                  | Inr mov_spots2 \<Rightarrow>
                 (let correlations = pairwise_correlation env
                        (get_contexts_fix env fix_spots2) (get_contexts_mov env mov_spots2)
                  in
                 (case to_physical fix_spots2 (fix_spacing args) of
                    Inl e \<Rightarrow> Inl e
                  | Inr fix_spots3 \<Rightarrow>
                 (case to_physical mov_spots2 (mov_spacing args) of
                    Inl e \<Rightarrow> Inl e
                  | Inr mov_spots3 \<Rightarrow>
                 (let (fix_spots4, mov_spots4) =
                        match_points env fix_spots3 mov_spots3 correlations
                  in if length fix_spots4 < 50 \<or> length mov_spots4 < 50 then Inr default1
                     else
                       (let (r, Aff, inline) = estimateAffine3D env fix_spots4 mov_spots4
                        in case Aff of
                             None \<Rightarrow> Inl ValueError
                           | Some aff \<Rightarrow>
                               if \<exists>d \<in> set (np_diag aff).
                                    \<bar>d - 1\<bar> > diagonal_constraint args
                               then Inr default1
                               else augment (fix_ndim args) aff)))))))))"

section \<open>random_affine_search\<close>

text \<open>
  A bound (\<^verbatim>\<open>max_translation\<close>, \<^verbatim>\<open>max_rotation\<close>, \<^verbatim>\<open>max_scale\<close>,
  \<^verbatim>\<open>max_shear\<close>) is \<^verbatim>\<open>None\<close>, a number or a tuple of numbers.
\<close>

datatype bound = B_None | B_Scalar real | B_Tuple "real list"

text \<open>
  \<^verbatim>\<open>
    def expand_param_to_3d(param, null_value):
        if isinstance(param, (int, float)):
            param = (param,) * 2
        if isinstance(param, tuple):
            param += (null_value,)
        return param
  \<close>
\<close>

fun expand_param_to_3d :: "bound \<Rightarrow> real \<Rightarrow> bound" where
  "expand_param_to_3d (B_Scalar p) null_value = B_Tuple [p, p, null_value]"
| "expand_param_to_3d (B_Tuple t) null_value = B_Tuple (t @ [null_value])"
| "expand_param_to_3d B_None null_value = B_None"

text \<open>Python's truth value of a bound, as in \<^verbatim>\<open>if max_translation:\<close>.\<close>

fun truthy :: "bound \<Rightarrow> bool" where
  "truthy B_None = False"
| "truthy (B_Scalar p) = (p \<noteq> 0)"
| "truthy (B_Tuple t) = (t \<noteq> [])"

text \<open>
  A bound broadcast against the three columns it is multiplied with; a tuple of two
  or of more than three numbers does not broadcast and raises ValueError.
\<close>

fun columns :: "bound \<Rightarrow> pyerr + real list" where
  "columns (B_Scalar p) = Inr [p, p, p]"
| "columns (B_Tuple [p]) = Inr [p, p, p]"
| "columns (B_Tuple [p0, p1, p2]) = Inr [p0, p1, p2]"
| "columns _ = Inl ValueError"

text \<open>
  \<^verbatim>\<open>F = lambda mx: 2 * (mx * np.random.rand(random_iterations, 3)) - mx\<close>
  on the per-column values \<open>mx\<close>, with \<open>u i j\<close> the number drawn for row \<open>i\<close> and
  column \<open>j\<close>.
\<close>

definition F :: "nat \<Rightarrow> (nat \<Rightarrow> nat \<Rightarrow> real) \<Rightarrow> real list \<Rightarrow> real list list" where
  "F random_iterations u mx =
     map (\<lambda>i. map (\<lambda>j. 2 * (mx ! j * u i j) - mx ! j) [0..<3]) [0..<random_iterations]"

text \<open>
  The numbers drawn by the four calls of \<^verbatim>\<open>np.random.rand\<close>, each in \<open>[0, 1)\<close>.
  A call is made only for a bound that is truthy.
\<close>

record draws =
  u_translation :: "nat \<Rightarrow> nat \<Rightarrow> real"
  u_rotation :: "nat \<Rightarrow> nat \<Rightarrow> real"
  u_scale :: "nat \<Rightarrow> nat \<Rightarrow> real"
  u_shear :: "nat \<Rightarrow> nat \<Rightarrow> real"

definition unit_interval :: "draws \<Rightarrow> bool" where
  "unit_interval d \<longleftrightarrow>
     (\<forall>i j. 0 \<le> u_translation d i j \<and> u_translation d i j < 1
          \<and> 0 \<le> u_rotation d i j \<and> u_rotation d i j < 1
          \<and> 0 \<le> u_scale d i j \<and> u_scale d i j < 1
          \<and> 0 \<le> u_shear d i j \<and> u_shear d i j < 1)"

text \<open>
  One block of three columns of the table, rows 1 onwards: the value it keeps when
  the bound is falsy, else \<open>g\<close> of the drawn values (\<open>g\<close> is the identity, or
  \<^verbatim>\<open>np.e**\<close> for the scale, whose bound goes through \<^verbatim>\<open>np.log\<close> first).
\<close>

definition block :: "nat \<Rightarrow> bound \<Rightarrow> (nat \<Rightarrow> nat \<Rightarrow> real) \<Rightarrow> real \<Rightarrow> pyerr + real list list" where
  "block random_iterations mx u keep =
     (if truthy mx then
        (case columns mx of Inl e \<Rightarrow> Inl e | Inr c \<Rightarrow> Inr (F random_iterations u c))
      else Inr (replicate random_iterations [keep, keep, keep]))"

definition scale_block :: "nat \<Rightarrow> bound \<Rightarrow> (nat \<Rightarrow> nat \<Rightarrow> real) \<Rightarrow> pyerr + real list list" where
  "scale_block random_iterations mx u =
     (if truthy mx then
        (case columns mx of
           Inl e \<Rightarrow> Inl e
         | Inr c \<Rightarrow> Inr (map (map exp) (F random_iterations u (map ln c))))
      else Inr (replicate random_iterations [1, 1, 1]))"

text \<open>
  \<^verbatim>\<open>
    params = np.zeros((random_iterations+1, 12))
    params[:, 6:9] = 1  # default for scale params
    if max_translation: params[1:, 0:3] = F(max_translation)
    if max_rotation: params[1:, 3:6] = F(max_rotation)
    if max_scale: params[1:, 6:9] = np.e**F(np.log(max_scale))
    if max_shear: params[1:, 9:] = F(max_shear)
  \<close>
  Scale bounds are positive numbers; \<^verbatim>\<open>np.log\<close> of another one is an infinity or
  a NaN, which the reals of this model do not have.
\<close>

definition identity_params :: "real list" where
  "identity_params = [0, 0, 0, 0, 0, 0, 1, 1, 1, 0, 0, 0]"

definition generate_params ::
  "nat \<Rightarrow> bound \<Rightarrow> bound \<Rightarrow> bound \<Rightarrow> bound \<Rightarrow> draws \<Rightarrow> pyerr + real list list" where
  "generate_params random_iterations max_translation max_rotation max_scale max_shear d =
     (case block random_iterations max_translation (u_translation d) 0 of
        Inl e \<Rightarrow> Inl e
      | Inr t \<Rightarrow>
     (case block random_iterations max_rotation (u_rotation d) 0 of
        Inl e \<Rightarrow> Inl e
      | Inr r \<Rightarrow>
     (case scale_block random_iterations max_scale (u_scale d) of
        Inl e \<Rightarrow> Inl e
      | Inr s \<Rightarrow>
     (case block random_iterations max_shear (u_shear d) 0 of
        Inl e \<Rightarrow> Inl e
      | Inr sh \<Rightarrow>
          Inr (identity_params #
               map (\<lambda>i. t ! i @ r ! i @ s ! i @ sh ! i) [0..<random_iterations])))))"

text \<open>\<^verbatim>\<open>WORST_POSSIBLE_SCORE = np.finfo(np.float64).max\<close>\<close>

definition WORST_POSSIBLE_SCORE :: real where
  "WORST_POSSIBLE_SCORE = (2 - 1 / 2 ^ 52) * 2 ^ 1023"

text \<open>
  The two definitions of \<^verbatim>\<open>score_affine\<close>.  \<open>metric\<close> is the outcome of the
  evaluator on a candidate matrix: \<^verbatim>\<open>irm.MetricEvaluate\<close> for the engine,
  \<^verbatim>\<open>patch_mutual_information\<close> on the resampled image for the other.  Only the
  first sits in a \<^verbatim>\<open>try\<close>.
\<close>

definition score_affine_irm :: "(matrix \<Rightarrow> pyerr + real) \<Rightarrow> matrix \<Rightarrow> pyerr + real" where
  "score_affine_irm metric affine =
     (case metric affine of Inl e \<Rightarrow> Inr WORST_POSSIBLE_SCORE | Inr v \<Rightarrow> Inr v)"

definition score_affine_patch :: "(matrix \<Rightarrow> pyerr + real) \<Rightarrow> matrix \<Rightarrow> pyerr + real" where
  "score_affine_patch metric affine = metric affine"

text \<open>
  \<^verbatim>\<open>
    for iii, ppp in enumerate(params):
        scores[iii] = score_affine(ut.physical_parameters_to_affine_matrix_3d(ppp, center))
  \<close>
  An exception of \<^verbatim>\<open>score_affine\<close> ends the loop and the function.  (The printing
  of running improvements has no effect on the result.)
\<close>

fun score_all :: "(matrix \<Rightarrow> pyerr + real) \<Rightarrow> matrix list \<Rightarrow> pyerr + real list" where
  "score_all score_affine [] = Inr []"
| "score_all score_affine (a # as) =
     (case score_affine a of
        Inl e \<Rightarrow> Inl e
      | Inr v \<Rightarrow>
          (case score_all score_affine as of
             Inl e \<Rightarrow> Inl e
           | Inr vs \<Rightarrow> Inr (v # vs)))"

text \<open>
  \<^verbatim>\<open>np.argsort\<close>: the indices in ascending order of the values (among equal values
  numpy's order is not fixed; the model takes the stable one).
\<close>

definition np_argsort :: "real list \<Rightarrow> nat list" where
  "np_argsort a = sort_key (\<lambda>i. a ! i) [0..<length a]"

text \<open>
  \<^verbatim>\<open>np.argpartition(a, kth)\<close> for \<open>kth \<ge> 0\<close>: numpy raises ValueError
  (kth out of bounds) unless \<open>kth < len(a)\<close>; otherwise it returns a permutation of
  the indices with the \<open>kth\<close> smallest values first.  The sorted order is one such
  permutation.
\<close>

definition np_argpartition :: "real list \<Rightarrow> nat \<Rightarrow> pyerr + nat list" where
  "np_argpartition a kth =
     (if kth < length a then Inr (np_argsort a) else Inl ValueError)"

record ras_args =
  fix_shape :: "nat list"
  ras_fix_spacing :: "real list"
  random_iterations :: nat
  nreturn :: nat
  max_translation :: bound
  max_rotation :: bound
  max_scale :: bound
  max_shear :: bound
  use_patch_mutual_information :: bool

text \<open>
  \<open>to_matrix\<close> is \<^verbatim>\<open>ut.physical_parameters_to_affine_matrix_3d\<close>, \<open>metric\<close> the
  evaluator that the mode selects.  For a 2-d image the function has made
  \<^verbatim>\<open>fix_spacing\<close> a tuple (\<^verbatim>\<open>tuple(fix_spacing) + (1.,)\<close>), and
  \<^verbatim>\<open>apply_alignment_spacing\<close>, called once the table is built, starts with
  \<^verbatim>\<open>fix_spacing.astype(np.float64)\<close>: a tuple has no such attribute, and the call
  raises AttributeError before any candidate is scored.
\<close>

definition random_affine_search ::
  "ras_args \<Rightarrow> draws \<Rightarrow> (real list \<Rightarrow> real list \<Rightarrow> matrix) \<Rightarrow> (matrix \<Rightarrow> pyerr + real) \<Rightarrow>
   pyerr + matrix list" where
  "random_affine_search args d to_matrix metric =
     (let two_d = (length (fix_shape args) = 2);
          fix_shape1 = (if two_d then fix_shape args @ [1] else fix_shape args);
          fix_spacing1 = (if two_d then ras_fix_spacing args @ [1] else ras_fix_spacing args);
          max_translation1 = (if two_d then expand_param_to_3d (max_translation args) 0
                              else max_translation args);
          max_rotation1 = (if two_d then expand_param_to_3d (max_rotation args) 0
                           else max_rotation args);
          max_scale1 = (if two_d then expand_param_to_3d (max_scale args) 1
                        else max_scale args);
          max_shear1 = (if two_d then expand_param_to_3d (max_shear args) 0
                        else max_shear args)
      in case generate_params (random_iterations args)
                max_translation1 max_rotation1 max_scale1 max_shear1 d of
           Inl e \<Rightarrow> Inl e
         | Inr params \<Rightarrow>
             (let center = map2 (\<lambda>n s. real n / 2 * s) fix_shape1 fix_spacing1;
                  score_affine = (if use_patch_mutual_information args
                                  then score_affine_patch metric
                                  else score_affine_irm metric)
              in if two_d then Inl AttributeError
                 else
                   (case score_all score_affine (map (\<lambda>ppp. to_matrix ppp center) params) of
                      Inl e \<Rightarrow> Inl e
                    | Inr scores \<Rightarrow>
                        (case np_argpartition scores (nreturn args) of
                           Inl e \<Rightarrow> Inl e
                         | Inr part \<Rightarrow>
                             (let partition_indx = take (nreturn args) part;
                                  params1 = map (\<lambda>k. params ! k) partition_indx;
                                  scores1 = map (\<lambda>k. scores ! k) partition_indx
                              in Inr (map (\<lambda>k. to_matrix (params1 ! k) center)
                                          (np_argsort scores1)))))))"

section \<open>alignment_pipeline\<close>

datatype kind = Ransac | Random | Rigid | Affine | Deform

text \<open>The keys of the dictionary \<^verbatim>\<open>align\<close>; another string raises KeyError.\<close>

definition align_key :: "string \<Rightarrow> kind option" where
  "align_key alignment =
     (if alignment = ''ransac'' then Some Ransac
      else if alignment = ''random'' then Some Random
      else if alignment = ''rigid'' then Some Rigid
      else if alignment = ''affine'' then Some Affine
      else if alignment = ''deform'' then Some Deform
      else None)"

text \<open>
  \<^verbatim>\<open>
    new_transforms = []
    for alignment, arguments in steps:
        arguments = {**kwargs, **arguments}
        arguments['static_transform_list'] = static_transform_list + new_transforms
        new_transforms.append(align[alignment](**arguments))
  \<close>
  \<open>align k arguments static\<close> is the result of the stage \<open>k\<close> on the merged
  arguments and the static transform list (an exception of the stage leaves the
  pipeline).
\<close>

fun run_steps ::
  "(kind \<Rightarrow> (string \<rightharpoonup> 'v) \<Rightarrow> 't list \<Rightarrow> pyerr + 't) \<Rightarrow> (string \<rightharpoonup> 'v) \<Rightarrow> 't list \<Rightarrow>
   't list \<Rightarrow> (string \<times> (string \<rightharpoonup> 'v)) list \<Rightarrow> pyerr + 't list" where
  "run_steps align kwargs static_transform_list new_transforms [] = Inr new_transforms"
| "run_steps align kwargs static_transform_list new_transforms ((alignment, arguments) # steps) =
     (case align_key alignment of
        None \<Rightarrow> Inl KeyError
      | Some k \<Rightarrow>
          (case align k (kwargs ++ arguments) (static_transform_list @ new_transforms) of
             Inl e \<Rightarrow> Inl e
           | Inr t \<Rightarrow>
               run_steps align kwargs static_transform_list (new_transforms @ [t]) steps))"

text \<open>
  \<^verbatim>\<open>
    shapes = np.array([x.shape for x in new_transforms], dtype=object)
    changes = np.where(shapes[:-1] != shapes[1:])[0] + 1
  \<close>
  With shapes of one rank \<open>k\<close>, numpy builds a 2-d array of \<open>n\<close> rows and \<open>k\<close>
  columns, the comparison is entry by entry and \<^verbatim>\<open>np.where(...)[0]\<close> names a row
  once for each column in which it differs from the next row.  With shapes of several
  ranks the array is 1-d, its entries are the tuples, and a row is named once when
  its tuple differs from the next.
\<close>

definition shape_changes :: "nat list list \<Rightarrow> nat list" where
  "shape_changes shapes =
     (let n = length shapes
      in if n = 0 then []
         else if \<forall>s \<in> set shapes. length s = length (hd shapes) then
           concat (map (\<lambda>i. map (\<lambda>j. i + 1)
                               (filter (\<lambda>j. shapes ! i ! j \<noteq> shapes ! (i + 1) ! j)
                                       [0..<length (hd shapes)]))
                       [0..<n - 1])
         else map (\<lambda>i. i + 1) (filter (\<lambda>i. shapes ! i \<noteq> shapes ! (i + 1)) [0..<n - 1]))"

text \<open>The Python slice \<^verbatim>\<open>xs[a:b]\<close> for \<open>0 \<le> a\<close> and \<open>0 \<le> b\<close>.\<close>

definition slice :: "'a list \<Rightarrow> nat \<Rightarrow> nat \<Rightarrow> 'a list" where
  "slice xs a b = take (b - a) (drop a xs)"

text \<open>
  \<^verbatim>\<open>
    changes = [0,] + list(changes) + [len(new_transforms),]
    F = lambda a, b: compose_transform_list(new_transforms[a:b], fix_spacing)
    return [F(a, b) for a, b in zip(changes[:-1], changes[1:])]
  \<close>
  \<open>compressed_slices\<close> are the slices \<^verbatim>\<open>new_transforms[a:b]\<close> in the order in
  which \<^verbatim>\<open>F\<close> receives them.  \<^verbatim>\<open>compose_transform_list\<close> is a function of the
  repository outside this file and a parameter here; it can raise, and its first
  exception ends the list comprehension.
\<close>

definition compressed_slices :: "('t \<Rightarrow> nat list) \<Rightarrow> 't list \<Rightarrow> 't list list" where
  "compressed_slices shape new_transforms =
     (let changes = [0] @ shape_changes (map shape new_transforms) @ [length new_transforms]
      in map (\<lambda>(a, b). slice new_transforms a b) (zip (butlast changes) (tl changes)))"

fun compose_each :: "('t list \<Rightarrow> pyerr + 't) \<Rightarrow> 't list list \<Rightarrow> pyerr + 't list" where
  "compose_each compose_transform_list [] = Inr []"
| "compose_each compose_transform_list (g # gs) =
     (case compose_transform_list g of
        Inl e \<Rightarrow> Inl e
      | Inr t \<Rightarrow>
          (case compose_each compose_transform_list gs of
             Inl e \<Rightarrow> Inl e
           | Inr ts \<Rightarrow> Inr (t # ts)))"

definition compressed ::
  "('t \<Rightarrow> nat list) \<Rightarrow> ('t list \<Rightarrow> pyerr + 't) \<Rightarrow> 't list \<Rightarrow> pyerr + 't list" where
  "compressed shape compose_transform_list new_transforms =
     compose_each compose_transform_list (compressed_slices shape new_transforms)"

text \<open>
  What the pipeline returns: a list of transforms, one transform, or \<^verbatim>\<open>None\<close>
  when \<^verbatim>\<open>return_format\<close> is none of the three names.
\<close>

datatype 't pipeline_result = Transforms "'t list" | Single 't | PyNone

definition alignment_pipeline ::
  "(kind \<Rightarrow> (string \<rightharpoonup> 'v) \<Rightarrow> 't list \<Rightarrow> pyerr + 't) \<Rightarrow> ('t \<Rightarrow> nat list) \<Rightarrow>
   ('t list \<Rightarrow> pyerr + 't) \<Rightarrow> (string \<times> (string \<rightharpoonup> 'v)) list \<Rightarrow> 't list \<Rightarrow> string \<Rightarrow>
   (string \<rightharpoonup> 'v) \<Rightarrow> pyerr + 't pipeline_result" where
  "alignment_pipeline align shape compose_transform_list steps static_transform_list
     return_format kwargs =
     (case run_steps align kwargs static_transform_list [] steps of
        Inl e \<Rightarrow> Inl e
      | Inr new_transforms \<Rightarrow>
          if return_format = ''independent'' then Inr (Transforms new_transforms)
          else if return_format = ''compressed'' then
            (case compressed shape compose_transform_list new_transforms of
               Inl e \<Rightarrow> Inl e
             | Inr ts \<Rightarrow> Inr (Transforms ts))
          else if return_format = ''flatten'' then
            (case compose_transform_list new_transforms of
               Inl e \<Rightarrow> Inl e
             | Inr t \<Rightarrow> Inr (Single t))
          else Inr PyNone)"

text \<open>
  The grouping as the specification words it: the maximal runs of adjacent results of
  equal shape (used only to compare with \<open>compressed_slices\<close>).
\<close>

fun maximal_runs :: "('t \<Rightarrow> nat list) \<Rightarrow> 't list \<Rightarrow> 't list list" where
  "maximal_runs shape [] = []"
| "maximal_runs shape [x] = [[x]]"
| "maximal_runs shape (x # y # xs) =
     (if shape x = shape y
      then (case maximal_runs shape (y # xs) of
              r # rs \<Rightarrow> (x # r) # rs
            | [] \<Rightarrow> [[x]])
      else [x] # maximal_runs shape (y # xs))"

section \<open>Example inputs\<close>

text \<open>
  A hundred coincident spots of intensity 1 and a hundred spots on a line, arguments
  of the feature stage with unit spacings, and collaborators that keep the first
  \<open>n\<close> spots of each set as the matched pairs and give \<open>fit\<close> as the answer of the
  affine fitter.
\<close>

definition spots100 :: spots where
  "spots100 = replicate 100 [0, 0, 0, 1]"

definition collinear_spots :: spots where
  "collinear_spots = map (\<lambda>i. [real i, 0, 0, 1]) [0..<100]"

definition example_args :: "spots option \<Rightarrow> spots option \<Rightarrow> matrix option \<Rightarrow> ransac_args" where
  "example_args fs ms d =
     \<lparr>fix_ndim = 3, fix_spacing = [1, 1, 1], mov_spacing = [1, 1, 1], nspots = 5000,
      diagonal_constraint = 1 / 4, fix_spots = fs, mov_spots = ms, default_transform = d\<rparr>"

definition example_env ::
  "nat \<Rightarrow> int \<times> matrix option \<times> unit \<Rightarrow> (unit, unit, unit) ransac_env" where
  "example_env n fit =
     \<lparr>blob_detection_fix = replicate 3 [0, 0, 0, 1], blob_detection_mov = [],
      get_contexts_fix = (\<lambda>s. ()), get_contexts_mov = (\<lambda>s. ()),
      pairwise_correlation = (\<lambda>a b. ()),
      match_points = (\<lambda>a b c. (take n a, take n b)),
      estimateAffine3D = (\<lambda>a b. fit)\<rparr>"

text \<open>
  Three doubles: the one nearest to 0.7, the one Python computes for \<^verbatim>\<open>3 * 0.7\<close>
  (printed 2.0999999999999996) and the one it computes for \<^verbatim>\<open>3 * 0.7 / 0.7\<close>
  (printed 2.9999999999999996).
\<close>

definition double_07 :: real where
  "double_07 = 3152519739159347 / 2 ^ 52"

definition double_21 :: real where
  "double_21 = 1182194902184755 / 2 ^ 49"

definition double_29 :: real where
  "double_29 = 6755399441055743 / 2 ^ 51"

text \<open>
  A search over one random candidate on an 8x8x8 image of unit spacing, and draws
  that all have the value \<open>v\<close>.
\<close>

definition example_search :: "bool \<Rightarrow> bound \<Rightarrow> ras_args" where
  "example_search patch scale_bound =
     \<lparr>fix_shape = [8, 8, 8], ras_fix_spacing = [1, 1, 1], random_iterations = 1, nreturn = 1,
      max_translation = B_None, max_rotation = B_None, max_scale = scale_bound,
      max_shear = B_None, use_patch_mutual_information = patch\<rparr>"

definition constant_draws :: "real \<Rightarrow> draws" where
  "constant_draws v =
     \<lparr>u_translation = (\<lambda>i j. v), u_rotation = (\<lambda>i j. v), u_scale = (\<lambda>i j. v),
      u_shear = (\<lambda>i j. v)\<rparr>"

text \<open>
  A pipeline whose transforms are a name and a shape: every stage answers with its
  initial and the shape of its result (the shape of the feature stage's result is a
  parameter, as that stage returns the caller's default when it finds too few
  spots).  Composing a list joins the names and keeps the first shape; an empty list
  has no first transform, and composing it raises IndexError.
\<close>

definition example_stage ::
  "nat list \<Rightarrow> kind \<Rightarrow> (string \<rightharpoonup> unit) \<Rightarrow> (string \<times> nat list) list \<Rightarrow>
   pyerr + (string \<times> nat list)" where
  "example_stage ransac_shape k arguments static =
     Inr (case k of
            Ransac \<Rightarrow> (''s'', ransac_shape)
          | Random \<Rightarrow> (''r'', [4, 4])
          | Deform \<Rightarrow> (''d'', [8, 8, 8, 3])
          | _ \<Rightarrow> (''a'', [4, 4]))"

definition example_compose :: "(string \<times> nat list) list \<Rightarrow> pyerr + string \<times> nat list" where
  "example_compose ts =
     (case ts of
        [] \<Rightarrow> Inl IndexError
      | t # _ \<Rightarrow> Inr (concat (map fst ts), snd t))"

definition example_steps :: "string list \<Rightarrow> (string \<times> (string \<rightharpoonup> unit)) list" where
  "example_steps names = map (\<lambda>alignment. (alignment, Map.empty)) names"

section \<open>Rounding to doubles\<close>

lemma float64_eval:
  assumes p: "p = 2 powr of_int (k - 52)"
    and lo: "p * 2 ^ 52 \<le> \<bar>x\<bar>" and hi: "\<bar>x\<bar> < p * 2 ^ 53"
  shows "float64 x = of_int (round_half_even (x / p)) * p"
proof -
  have p0: "0 < p" using p by simp
  have x0: "x \<noteq> 0" using lo p0 by (smt (verit) mult_pos_pos zero_less_power)
  have a: "(2::real) powr of_int k = p * 2 ^ 52"
  proof -
    have "(2::real) powr of_int k = 2 powr (of_int (k - 52) + 52)" by simp
    also have "\<dots> = 2 powr of_int (k - 52) * 2 powr 52" by (simp only: powr_add)
    finally show ?thesis using p by simp
  qed
  have b: "(2::real) powr (of_int k + 1) = p * 2 ^ 53"
  proof -
    have "(2::real) powr (of_int k + 1) = 2 powr (of_int (k - 52) + 53)"
      by (simp add: add.commute)
    also have "\<dots> = 2 powr of_int (k - 52) * 2 powr 53" by (simp only: powr_add)
    finally show ?thesis using p by simp
  qed
  have "\<lfloor>log 2 \<bar>x\<bar>\<rfloor> = k"
    using x0 lo hi a b by (subst floor_log_eq_powr_iff) simp_all
  then show ?thesis using x0 p by (simp add: float64_def Let_def)
qed

lemma powr_neg_nat: "(2::real) powr of_int (- int n) = 1 / 2 ^ n"
  by (simp add: powr_minus powr_realpow inverse_eq_divide)

lemma float64_1: "float64 1 = 1"
  using float64_eval [of "1 / 2 ^ 52" 0 1] powr_neg_nat [of 52]
  by (simp add: round_half_even_def)

lemma float64_2: "float64 2 = 2"
  using float64_eval [of "1 / 2 ^ 51" 1 2] powr_neg_nat [of 51]
  by (simp add: round_half_even_def)

lemma float64_3: "float64 3 = 3"
  using float64_eval [of "1 / 2 ^ 51" 1 3] powr_neg_nat [of 51]
  by (simp add: round_half_even_def)

lemma float64_4: "float64 4 = 4"
  using float64_eval [of "1 / 2 ^ 50" 2 4] powr_neg_nat [of 50]
  by (simp add: round_half_even_def)

lemma float64_8: "float64 8 = 8"
  using float64_eval [of "1 / 2 ^ 49" 3 8] powr_neg_nat [of 49]
  by (simp add: round_half_even_def)

lemma float64_11: "float64 11 = 11"
  using float64_eval [of "1 / 2 ^ 49" 3 11] powr_neg_nat [of 49]
  by (simp add: round_half_even_def)

lemma float64_11_4: "float64 (11 / 4) = 11 / 4"
  using float64_eval [of "1 / 2 ^ 51" 1 "11 / 4"] powr_neg_nat [of 51]
  by (simp add: round_half_even_def)

lemma float64_07: "float64 double_07 = double_07"
  unfolding double_07_def
  using float64_eval [of "1 / 2 ^ 53" "-1" "3152519739159347 / 2 ^ 52"] powr_neg_nat [of 53]
  by (simp add: round_half_even_def)

text \<open>Three times the double of 0.7 lies halfway between two doubles and goes to the even one.\<close>

lemma float64_3_07: "float64 (3 * double_07) = double_21"
  unfolding double_07_def double_21_def
  using float64_eval [of "1 / 2 ^ 51" 1 "3 * (3152519739159347 / 2 ^ 52)"] powr_neg_nat [of 51]
  by (simp add: round_half_even_def)

lemma float64_21_07: "float64 (double_21 / double_07) = double_29"
  unfolding double_07_def double_21_def double_29_def
  using float64_eval [of "1 / 2 ^ 51" 1 "(1182194902184755 / 2 ^ 49) / (3152519739159347 / 2 ^ 52)"]
    powr_neg_nat [of 51]
  by (simp add: round_half_even_def)

lemma py_int_29: "py_int double_29 = 2"
  by (simp add: py_int_def double_29_def)

lemma double_07_nonzero: "double_07 \<noteq> 0"
  by (simp add: double_07_def)

section \<open>Properties of the fallback in affine_align and deformable_align\<close>

lemma result_or_default_raises: "engine_raises run \<Longrightarrow> result_or_default run d = d"
  by (auto simp: engine_raises_def result_or_default_def try_register_def split: sum.splits)

lemma result_or_default_values:
  "metric_initial run = Inr i \<Longrightarrow> execute run = Inr t \<Longrightarrow> metric_final run = Inr f \<Longrightarrow>
   result_or_default run d = (if f < i then t else d)"
  by (simp add: result_or_default_def try_register_def)

lemma try_register_raises: "engine_raises run \<Longrightarrow> \<exists>e. try_register run = Inl e"
  by (auto simp: engine_raises_def try_register_def split: sum.splits)

lemma try_register_values:
  "metric_initial run = Inr i \<Longrightarrow> execute run = Inr t \<Longrightarrow> metric_final run = Inr f \<Longrightarrow>
   try_register run = Inr (i, t, f)"
  by (simp add: try_register_def)

lemma np_eye_3: "np_eye 3 = [[1, 0, 0], [0, 1, 0], [0, 0, 1]]"
  by (simp add: np_eye_def eval_nat_numeral upt_rec)

lemma affine_fallback:
  "affine_default ndim dflt ic =
     (case (dflt, ic) of
        (None, IC_Array m) \<Rightarrow> m
      | (None, _) \<Rightarrow> np_eye (ndim + 1)
      | (Some d, IC_Array m) \<Rightarrow> if d = np_eye (ndim + 1) then m else d
      | (Some d, _) \<Rightarrow> d)"
  by (simp add: affine_default_def split: option.splits initial_condition.splits)

lemma grid_example: "initial_cp_grid [8, 8] [1, 1] 2 [2, 1] = Inr [2, 2]"
  by (simp add: initial_cp_grid_def py_int_def float64_2 float64_4 float64_8)

text \<open>
  A default whose truth value raises (a numpy array of several elements) makes
  \<open>deformable_align\<close> raise before the engine runs.
\<close>

lemma deformable_align_ambiguous_default:
  "initial_cp_grid fsize fspacing cps levels = Inr grid \<Longrightarrow> truth d = Inl e \<Longrightarrow>
   deformable_align fsize fspacing cps levels (Some d) truth ident irm = Inl e"
  by (simp add: deformable_align_def not_default_def)

text \<open>
  Claim C2, as amended.  \<open>affine_align\<close>: when the engine raises in one of its three
  calls, or the three calls return and the final metric is not strictly below the
  initial one, the function returns the identity when no default is given and the
  initial condition is no matrix, the initial condition when it is a matrix and no
  default is given or the given default equals the identity, and else the caller's
  default exactly; when the final metric is strictly below the initial one it
  returns the optimised transform.  \<open>deformable_align\<close>, once the grid exists and the
  truth value of a given default is known: on an exception or without strict
  improvement it returns the caller's default exactly when that is given and truthy,
  and the identity pair (params, field) when the default is \<^verbatim>\<open>None\<close> or falsy;
  with strict improvement it returns the optimised pair.
\<close>

theorem align_default_unless_improved:
  fixes irm_a :: "init_transform \<Rightarrow> matrix irm_run" and irm_d :: "int list \<Rightarrow> 'r irm_run"
    and dflt_d :: "'o option"
  assumes grid: "initial_cp_grid fsize fspacing cps levels = Inr grid"
    and truth: "case dflt_d of None \<Rightarrow> True | Some d \<Rightarrow> truth d = Inr truthy_d"
  shows "(engine_raises (irm_a (affine_initial_transform ndim rigid ic center_x))
          \<or> (metric_initial (irm_a (affine_initial_transform ndim rigid ic center_x)) = Inr i_a
             \<and> execute (irm_a (affine_initial_transform ndim rigid ic center_x)) = Inr t_a
             \<and> metric_final (irm_a (affine_initial_transform ndim rigid ic center_x)) = Inr f_a
             \<and> \<not> f_a < i_a)
          \<longrightarrow> affine_align ndim rigid ic dflt_a center_x irm_a
              = (case (dflt_a, ic) of
                   (None, IC_Array m) \<Rightarrow> m
                 | (None, _) \<Rightarrow> np_eye (ndim + 1)
                 | (Some d, IC_Array m) \<Rightarrow> if d = np_eye (ndim + 1) then m else d
                 | (Some d, _) \<Rightarrow> d))
       \<and> (metric_initial (irm_a (affine_initial_transform ndim rigid ic center_x)) = Inr i_a
          \<and> execute (irm_a (affine_initial_transform ndim rigid ic center_x)) = Inr t_a
          \<and> metric_final (irm_a (affine_initial_transform ndim rigid ic center_x)) = Inr f_a
          \<and> f_a < i_a
          \<longrightarrow> affine_align ndim rigid ic dflt_a center_x irm_a = t_a)
       \<and> (engine_raises (irm_d grid)
          \<or> (metric_initial (irm_d grid) = Inr i_d \<and> execute (irm_d grid) = Inr t_d
             \<and> metric_final (irm_d grid) = Inr f_d \<and> \<not> f_d < i_d)
          \<longrightarrow> deformable_align fsize fspacing cps levels dflt_d truth ident irm_d
              = Inr (case dflt_d of
                       None \<Rightarrow> Computed (ident grid)
                     | Some d \<Rightarrow> if truthy_d then Given d else Computed (ident grid)))
       \<and> (metric_initial (irm_d grid) = Inr i_d \<and> execute (irm_d grid) = Inr t_d
          \<and> metric_final (irm_d grid) = Inr f_d \<and> f_d < i_d
          \<longrightarrow> deformable_align fsize fspacing cps levels dflt_d truth ident irm_d
              = Inr (Computed t_d))"
proof (intro conjI impI)
  assume "engine_raises (irm_a (affine_initial_transform ndim rigid ic center_x))
          \<or> (metric_initial (irm_a (affine_initial_transform ndim rigid ic center_x)) = Inr i_a
             \<and> execute (irm_a (affine_initial_transform ndim rigid ic center_x)) = Inr t_a
             \<and> metric_final (irm_a (affine_initial_transform ndim rigid ic center_x)) = Inr f_a
             \<and> \<not> f_a < i_a)"
  then have "affine_align ndim rigid ic dflt_a center_x irm_a = affine_default ndim dflt_a ic"
    by (auto simp: affine_align_def result_or_default_raises result_or_default_values)
  then show "affine_align ndim rigid ic dflt_a center_x irm_a
              = (case (dflt_a, ic) of
                   (None, IC_Array m) \<Rightarrow> m
                 | (None, _) \<Rightarrow> np_eye (ndim + 1)
                 | (Some d, IC_Array m) \<Rightarrow> if d = np_eye (ndim + 1) then m else d
                 | (Some d, _) \<Rightarrow> d)"
    by (simp only: affine_fallback)
next
  assume "metric_initial (irm_a (affine_initial_transform ndim rigid ic center_x)) = Inr i_a
          \<and> execute (irm_a (affine_initial_transform ndim rigid ic center_x)) = Inr t_a
          \<and> metric_final (irm_a (affine_initial_transform ndim rigid ic center_x)) = Inr f_a
          \<and> f_a < i_a"
  then show "affine_align ndim rigid ic dflt_a center_x irm_a = t_a"
    by (simp add: affine_align_def result_or_default_values)
next
  assume "engine_raises (irm_d grid)
          \<or> (metric_initial (irm_d grid) = Inr i_d \<and> execute (irm_d grid) = Inr t_d
             \<and> metric_final (irm_d grid) = Inr f_d \<and> \<not> f_d < i_d)"
  then have "(\<exists>e. try_register (irm_d grid) = Inl e)
             \<or> (try_register (irm_d grid) = Inr (i_d, t_d, f_d) \<and> \<not> f_d < i_d)"
    using try_register_raises [of "irm_d grid"] try_register_values [of "irm_d grid" i_d t_d f_d]
    by blast
  then show "deformable_align fsize fspacing cps levels dflt_d truth ident irm_d
              = Inr (case dflt_d of
                       None \<Rightarrow> Computed (ident grid)
                     | Some d \<Rightarrow> if truthy_d then Given d else Computed (ident grid))"
    using truth by (auto simp: deformable_align_def grid not_default_def split: option.splits)
next
  assume "metric_initial (irm_d grid) = Inr i_d \<and> execute (irm_d grid) = Inr t_d
          \<and> metric_final (irm_d grid) = Inr f_d \<and> f_d < i_d"
  then have "try_register (irm_d grid) = Inr (i_d, t_d, f_d)" and "f_d < i_d"
    by (simp_all add: try_register_values)
  then show "deformable_align fsize fspacing cps levels dflt_d truth ident irm_d
              = Inr (Computed t_d)"
    using truth by (auto simp: deformable_align_def grid not_default_def split: option.splits)
qed

theorem align_default_unless_improved_witness:
  "affine_align 2 False (IC_Array [[1, 0, 5], [0, 1, 0], [0, 0, 1]])
      (Some [[1, 0, 7], [0, 1, 0], [0, 0, 1]]) []
      (\<lambda>x. \<lparr>metric_initial = Inr 5, execute = Inl RuntimeError, metric_final = Inr 1\<rparr>)
     = [[1, 0, 7], [0, 1, 0], [0, 0, 1]]
   \<and> deformable_align [8, 8] [1, 1] 2 [2, 1] (Some [7::nat]) (\<lambda>d. Inr (d \<noteq> [])) (\<lambda>g. 0::nat)
        (\<lambda>g. \<lparr>metric_initial = Inl RuntimeError, execute = Inr 9, metric_final = Inr 1\<rparr>)
     = Inr (Given [7])
   \<and> affine_align 2 False IC_None None []
      (\<lambda>x. \<lparr>metric_initial = Inr 5, execute = Inr [[2]], metric_final = Inr 5\<rparr>)
     = np_eye 3
   \<and> deformable_align [8, 8] [1, 1] 2 [2, 1] (Some ([]::nat list)) (\<lambda>d. Inr (d \<noteq> []))
        (\<lambda>g. 0::nat)
        (\<lambda>g. \<lparr>metric_initial = Inr 3, execute = Inr 9, metric_final = Inr 3\<rparr>)
     = Inr (Computed 0)
   \<and> affine_align 2 False IC_None None []
      (\<lambda>x. \<lparr>metric_initial = Inr 5, execute = Inr [[2]], metric_final = Inr 4\<rparr>)
     = [[2]]
   \<and> deformable_align [8, 8] [1, 1] 2 [2, 1] (None :: nat list option) (\<lambda>d. Inr (d \<noteq> []))
        (\<lambda>g. 0::nat)
        (\<lambda>g. \<lparr>metric_initial = Inr 3, execute = Inr 9, metric_final = Inr 2\<rparr>)
     = Inr (Computed 9)"
  using
    align_default_unless_improved [OF grid_example,
      where irm_a = "\<lambda>x. \<lparr>metric_initial = Inr 5, execute = Inl RuntimeError, metric_final = Inr 1\<rparr>"
        and ndim = 2 and rigid = False and ic = "IC_Array [[1, 0, 5], [0, 1, 0], [0, 0, 1]]"
        and center_x = "[]" and dflt_a = "Some [[1, 0, 7], [0, 1, 0], [0, 0, 1]]"
        and irm_d = "\<lambda>g. \<lparr>metric_initial = Inl RuntimeError, execute = Inr (9::nat), metric_final = Inr 1\<rparr>"
        and dflt_d = "Some [7::nat]" and truth = "\<lambda>d. Inr (d \<noteq> [])" and truthy_d = True
        and ident = "\<lambda>g. 0"]
    align_default_unless_improved [OF grid_example,
      where irm_a = "\<lambda>x. \<lparr>metric_initial = Inr 5, execute = Inr [[2]], metric_final = Inr 5\<rparr>"
        and ndim = 2 and rigid = False and ic = IC_None and center_x = "[]" and dflt_a = None
        and irm_d = "\<lambda>g. \<lparr>metric_initial = Inr 3, execute = Inr (9::nat), metric_final = Inr 3\<rparr>"
        and dflt_d = "Some ([]::nat list)" and truth = "\<lambda>d. Inr (d \<noteq> [])" and truthy_d = False
        and ident = "\<lambda>g. 0"
        and i_a = 5 and t_a = "[[2]]" and f_a = 5 and i_d = 3 and t_d = 9 and f_d = 3]
    align_default_unless_improved [OF grid_example,
      where irm_a = "\<lambda>x. \<lparr>metric_initial = Inr 5, execute = Inr [[2]], metric_final = Inr 4\<rparr>"
        and ndim = 2 and rigid = False and ic = IC_None and center_x = "[]" and dflt_a = None
        and irm_d = "\<lambda>g. \<lparr>metric_initial = Inr 3, execute = Inr (9::nat), metric_final = Inr 2\<rparr>"
        and dflt_d = "None :: nat list option" and truth = "\<lambda>d. Inr (d \<noteq> [])"
        and ident = "\<lambda>g. 0"
        and i_a = 5 and t_a = "[[2]]" and f_a = 4 and i_d = 3 and t_d = 9 and f_d = 2]
  by (simp add: engine_raises_def np_eye_3)

text \<open>
  The claim C2 as it is worded fails: without improvement of the metric, an explicit
  identity default is not returned by \<open>affine_align\<close> when the initial condition is a
  matrix, and on an exception of the engine an explicit empty list is not returned
  by \<open>deformable_align\<close>.
\<close>

theorem default_not_returned_counterexample:
  "affine_align 2 False (IC_Array [[1, 0, 5], [0, 1, 0], [0, 0, 1]]) (Some (np_eye 3)) []
      (\<lambda>x. \<lparr>metric_initial = Inr 5, execute = Inr [[2]], metric_final = Inr 5\<rparr>)
     \<noteq> np_eye 3
   \<and> deformable_align [8, 8] [1, 1] 2 [2, 1] (Some ([]::nat list)) (\<lambda>d. Inr (d \<noteq> []))
        (\<lambda>g. 0::nat)
        (\<lambda>g. \<lparr>metric_initial = Inl RuntimeError, execute = Inr 9, metric_final = Inr 1\<rparr>)
     \<noteq> Inr (Given [])"
  by (simp add: affine_align_def affine_default_def result_or_default_def try_register_def
      np_eye_3 deformable_align_def grid_example not_default_def)

text \<open>
  Claim C5, as amended.  When \<open>affine_align\<close> fails (the engine raises, or the final
  metric is not strictly below the initial one) it returns: the identity when no
  default and no matrix initial condition is given; the initial condition when it is
  a matrix and no default is given; an explicit default that is not the identity, or
  that comes without a matrix initial condition, exactly as given; and the matrix
  initial condition when the explicit default equals the identity, which the code
  does not tell from an unset default.
\<close>

theorem affine_default_resolution:
  fixes irm :: "init_transform \<Rightarrow> matrix irm_run"
  assumes fails: "engine_raises (irm (affine_initial_transform ndim rigid ic center_x))
            \<or> (metric_initial (irm (affine_initial_transform ndim rigid ic center_x)) = Inr i
               \<and> execute (irm (affine_initial_transform ndim rigid ic center_x)) = Inr t
               \<and> metric_final (irm (affine_initial_transform ndim rigid ic center_x)) = Inr f
               \<and> \<not> f < i)"
  shows "affine_align ndim rigid ic dflt center_x irm =
           (case (dflt, ic) of
              (None, IC_Array m) \<Rightarrow> m
            | (None, _) \<Rightarrow> np_eye (ndim + 1)
            | (Some d, IC_Array m) \<Rightarrow> if d = np_eye (ndim + 1) then m else d
            | (Some d, _) \<Rightarrow> d)"
  using fails
  by (auto simp: affine_align_def affine_default_def result_or_default_raises
        result_or_default_values split: option.splits initial_condition.splits)

theorem affine_default_resolution_witness:
  "affine_align 2 False (IC_Array [[1, 0, 5], [0, 1, 0], [0, 0, 1]]) (Some [[1, 0, 7], [0, 1, 0], [0, 0, 1]]) []
      (\<lambda>x. \<lparr>metric_initial = Inr 5, execute = Inl RuntimeError, metric_final = Inr 1\<rparr>)
     = [[1, 0, 7], [0, 1, 0], [0, 0, 1]]"
  using affine_default_resolution [where ndim = 2 and rigid = False
      and ic = "IC_Array [[1, 0, 5], [0, 1, 0], [0, 0, 1]]"
      and dflt = "Some [[1, 0, 7], [0, 1, 0], [0, 0, 1]]" and center_x = "[]"
      and irm = "\<lambda>x. \<lparr>metric_initial = Inr 5, execute = Inl RuntimeError, metric_final = Inr 1\<rparr>"]
  by (simp add: engine_raises_def np_eye_3)

text \<open>
  The claim C5 as it is worded fails: an explicit identity default is not returned
  when the initial condition is a matrix.
\<close>

theorem explicit_identity_default_counterexample:
  "affine_align 2 False (IC_Array [[1, 0, 5], [0, 1, 0], [0, 0, 1]]) (Some (np_eye 3)) []
      (\<lambda>x. \<lparr>metric_initial = Inr 5, execute = Inl RuntimeError, metric_final = Inr 1\<rparr>)
     \<noteq> np_eye 3"
  by (simp add: affine_align_def affine_default_def result_or_default_def try_register_def
        np_eye_3)

section \<open>The initial control-point grid\<close>

lemma grid_07:
  "initial_cp_grid [3, 3, 3] [double_07, double_07, double_07] double_07 [1, 2] = Inr [2, 2, 2]"
  by (simp add: initial_cp_grid_def float64_1 float64_3 float64_07 float64_3_07
      float64_21_07 py_int_29 double_07_nonzero)

lemma grid_11:
  "initial_cp_grid [11, 11, 11] [1, 1, 1] 1 [4] = Inr [2, 2, 2]"
  by (simp add: initial_cp_grid_def py_int_def float64_4 float64_11 float64_11_4)

lemma py_int_nonneg: "0 \<le> r \<Longrightarrow> py_int r = \<lfloor>r\<rfloor>"
  by (simp add: py_int_def)

lemma py_int_neg: "r < 0 \<Longrightarrow> max 1 (py_int r) = 1"
proof -
  assume "r < 0"
  then have "\<lceil>r\<rceil> \<le> 0" by (simp add: ceiling_le_zero)
  then show ?thesis using \<open>r < 0\<close> by (simp add: py_int_def)
qed

text \<open>
  Claim C4, as amended.  When the coarsest spacing
  \<open>control_point_spacing * control_point_levels[0]\<close>, as a double, is not zero, the
  grid has one cell count per axis.  On each axis the count is the maximum of 1 and
  \<open>int q\<close>, where \<open>q\<close> is the double that \<open>x * y / z\<close> evaluates to (voxel count
  times spacing over the coarsest spacing, each operation rounded to a double) and
  \<open>int\<close> drops the fraction: the floor of \<open>q\<close> when \<open>q\<close> is not negative, and a
  count of 1 when \<open>q\<close> is negative.  Nothing is rounded to the nearest integer.
\<close>

theorem initial_cp_grid_truncates:
  assumes z: "float64 (control_point_spacing * float64 (real_of_int level0)) \<noteq> 0"
  shows "\<exists>grid. initial_cp_grid fsize fspacing control_point_spacing (level0 # levels) = Inr grid
           \<and> length grid = min (length fsize) (length fspacing)
           \<and> (\<forall>k < length grid.
                 grid ! k
                   = max 1 (py_int (float64 (float64 (float64 (real_of_int (fsize ! k)) * fspacing ! k)
                        / float64 (control_point_spacing * float64 (real_of_int level0)))))
               \<and> (0 \<le> float64 (float64 (float64 (real_of_int (fsize ! k)) * fspacing ! k)
                        / float64 (control_point_spacing * float64 (real_of_int level0)))
                    \<longrightarrow> grid ! k
                      = max 1 \<lfloor>float64 (float64 (float64 (real_of_int (fsize ! k)) * fspacing ! k)
                        / float64 (control_point_spacing * float64 (real_of_int level0)))\<rfloor>)
               \<and> (float64 (float64 (float64 (real_of_int (fsize ! k)) * fspacing ! k)
                        / float64 (control_point_spacing * float64 (real_of_int level0))) < 0
                    \<longrightarrow> grid ! k = 1))"
  using z by (simp add: initial_cp_grid_def py_int_nonneg py_int_neg)

theorem initial_cp_grid_truncates_witness:
  "initial_cp_grid [3, 3, 3] [double_07, double_07, double_07] double_07 [1, 2] = Inr [2, 2, 2]
   \<and> \<lfloor>double_29\<rfloor> = 2"
  using initial_cp_grid_truncates [of double_07 1 "[3, 3, 3]"
      "[double_07, double_07, double_07]" "[2]"]
  by (simp add: grid_07 float64_1 float64_07 double_07_nonzero double_29_def)

text \<open>
  The claim C4 as it is worded fails: on a 3-d image of 11 voxels of spacing 1 on
  each axis, with a coarsest spacing of 4, the quotient is 2.75, which the code
  turns into 2 cells and rounding into 3.
\<close>

theorem initial_cp_grid_round_counterexample:
  "initial_cp_grid [11, 11, 11] [1, 1, 1] 1 [4] \<noteq> Inr (spec_cp_grid [11, 11, 11] [1, 1, 1] 1 [4])"
  by (simp add: grid_11 spec_cp_grid_def round_def)

section \<open>Properties of feature_point_ransac_affine_align\<close>

lemma insort_key_replicate: "insort_key f x (replicate n x) = replicate (Suc n) x"
  by (induction n) simp_all

lemma sort_key_replicate: "sort_key f (replicate n x) = replicate n x"
  by (induction n) (simp_all add: insort_key_replicate)

lemma sort_spots_replicate:
  "4 \<le> length row \<Longrightarrow> sort_spots (replicate n row) k = Inr (replicate (min k n) (take 3 row))"
  by (auto simp: sort_spots_def sort_key_replicate)

lemma to_physical_replicate:
  "to_physical (replicate n [a, b, c]) [s0, s1, s2] = Inr (replicate n [a * s0, b * s1, c * s2])"
  by (simp add: to_physical_def)

lemma sort_spots100: "sort_spots spots100 5000 = Inr (replicate 100 [0, 0, 0])"
  by (simp add: spots100_def sort_spots_replicate)

lemma length_spots100: "length spots100 = 100"
  by (simp add: spots100_def)

lemma to_physical100:
  "to_physical (replicate 100 [0, 0, 0]) [1, 1, 1] = Inr (replicate 100 [0, 0, 0])"
  by (simp add: to_physical_replicate)

lemma diagonal_2_1_1_rejected:
  "\<exists>i < 3. \<bar>[[2, 0, 0, 0], [0, 1, 0, 0], [0, 0, 1, 0]] ! i ! i - 1\<bar> > (1 / 4 :: real)"
  by (rule exI [of _ 0]) simp

text \<open>
  Claim C7.  \<open>feature_point_ransac_affine_align\<close> returns exactly its default (the
  identity of size \<open>fix.ndim + 1\<close> when none is given) and does not raise, when the
  fixed image has fewer than 100 spots, or the moving image has fewer than 100 spots,
  or point matching is reached and produces fewer than 50 pairs.
\<close>

theorem ransac_default_on_few_spots:
  fixes env :: "('ctx, 'corr, 'inl) ransac_env"
  assumes few:
    "length (case fix_spots args of None \<Rightarrow> blob_detection_fix env | Some s \<Rightarrow> s) < 100
   \<or> length (case mov_spots args of None \<Rightarrow> blob_detection_mov env | Some s \<Rightarrow> s) < 100
   \<or> (sort_spots (case fix_spots args of None \<Rightarrow> blob_detection_fix env | Some s \<Rightarrow> s)
          (nspots args) = Inr fs_sorted
      \<and> sort_spots (case mov_spots args of None \<Rightarrow> blob_detection_mov env | Some s \<Rightarrow> s)
          (nspots args) = Inr ms_sorted
      \<and> to_physical fs_sorted (fix_spacing args) = Inr fs_phys
      \<and> to_physical ms_sorted (mov_spacing args) = Inr ms_phys
      \<and> match_points env fs_phys ms_phys
           (pairwise_correlation env (get_contexts_fix env fs_sorted) (get_contexts_mov env ms_sorted))
         = (fs_matched, ms_matched)
      \<and> (length fs_matched < 50 \<or> length ms_matched < 50))"
  shows "feature_point_ransac_affine_align args env
           = Inr (case default_transform args of
                    None \<Rightarrow> np_eye (fix_ndim args + 1) | Some d \<Rightarrow> d)"
  using few
  by (auto simp: feature_point_ransac_affine_align_def Let_def)

theorem ransac_default_on_few_spots_witness:
  "feature_point_ransac_affine_align (example_args None (Some spots100) None)
      (example_env 100 (1, None, ())) = Inr (np_eye 4)
   \<and> feature_point_ransac_affine_align (example_args (Some spots100) (Some []) (Some [[5]]))
      (example_env 100 (1, None, ())) = Inr [[5]]
   \<and> feature_point_ransac_affine_align (example_args (Some spots100) (Some spots100) (Some [[5]]))
      (example_env 49 (1, None, ())) = Inr [[5]]"
  using
    ransac_default_on_few_spots [where args = "example_args None (Some spots100) None"
      and env = "example_env 100 (1, None, ())"]
    ransac_default_on_few_spots [where args = "example_args (Some spots100) (Some []) (Some [[5]])"
      and env = "example_env 100 (1, None, ())"]
    ransac_default_on_few_spots [where args = "example_args (Some spots100) (Some spots100) (Some [[5]])"
      and env = "example_env 49 (1, None, ())"
      and fs_sorted = "replicate 100 [0, 0, 0]" and ms_sorted = "replicate 100 [0, 0, 0]"
      and fs_phys = "replicate 100 [0, 0, 0]" and ms_phys = "replicate 100 [0, 0, 0]"
      and fs_matched = "replicate 49 [0, 0, 0]" and ms_matched = "replicate 49 [0, 0, 0]"]
  by (simp add: example_args_def example_env_def sort_spots100 to_physical100)

text \<open>
  Claim C10.  When the fitter is reached and gives a 3x4 matrix one of whose diagonal
  entries differs from 1 by more than \<open>diagonal_constraint\<close>, the function returns
  its default; so it does for the diagonal 2, 1, 1 under the constraint 0.25.
\<close>

theorem ransac_default_on_degenerate_affine:
  fixes env :: "('ctx, 'corr, 'inl) ransac_env"
  assumes "sort_spots (case fix_spots args of None \<Rightarrow> blob_detection_fix env | Some s \<Rightarrow> s)
             (nspots args) = Inr fs_sorted"
    and "sort_spots (case mov_spots args of None \<Rightarrow> blob_detection_mov env | Some s \<Rightarrow> s)
             (nspots args) = Inr ms_sorted"
    and "to_physical fs_sorted (fix_spacing args) = Inr fs_phys"
    and "to_physical ms_sorted (mov_spacing args) = Inr ms_phys"
    and "match_points env fs_phys ms_phys
           (pairwise_correlation env (get_contexts_fix env fs_sorted) (get_contexts_mov env ms_sorted))
         = (fs_matched, ms_matched)"
    and "estimateAffine3D env fs_matched ms_matched = (r, Some aff, inl)"
    and "length aff = 3" and "\<forall>row \<in> set aff. length row = 4"
    and "\<exists>i < 3. \<bar>aff ! i ! i - 1\<bar> > diagonal_constraint args"
  shows "feature_point_ransac_affine_align args env
           = Inr (case default_transform args of
                    None \<Rightarrow> np_eye (fix_ndim args + 1) | Some d \<Rightarrow> d)"
proof -
  have "hd aff \<in> set aff" using assms(7) by (cases aff) auto
  then have "length (hd aff) = 4" using assms(8) by blast
  then have d: "np_diag aff = [aff ! 0 ! 0, aff ! 1 ! 1, aff ! 2 ! 2]"
    using assms(7) by (simp add: np_diag_def eval_nat_numeral upt_rec)
  from assms(9) have "\<exists>d \<in> set (np_diag aff). \<bar>d - 1\<bar> > diagonal_constraint args"
    unfolding d by (auto simp: less_Suc_eq eval_nat_numeral)
  then show ?thesis
    using assms(1-6)
    by (auto simp: feature_point_ransac_affine_align_def Let_def)
qed

theorem ransac_default_on_degenerate_affine_witness:
  "feature_point_ransac_affine_align (example_args (Some spots100) (Some spots100) None)
      (example_env 100 (1, Some [[2, 0, 0, 0], [0, 1, 0, 0], [0, 0, 1, 0]], ()))
     = Inr (np_eye 4)"
  using ransac_default_on_degenerate_affine
    [where args = "example_args (Some spots100) (Some spots100) None"
      and env = "example_env 100 (1, Some [[2, 0, 0, 0], [0, 1, 0, 0], [0, 0, 1, 0]], ())"
      and fs_sorted = "replicate 100 [0, 0, 0]" and ms_sorted = "replicate 100 [0, 0, 0]"
      and fs_phys = "replicate 100 [0, 0, 0]" and ms_phys = "replicate 100 [0, 0, 0]"
      and fs_matched = "replicate 100 [0, 0, 0]" and ms_matched = "replicate 100 [0, 0, 0]"
      and r = 1 and aff = "[[2, 0, 0, 0], [0, 1, 0, 0], [0, 0, 1, 0]]" and inl = "()"]
    diagonal_2_1_1_rejected
  by (simp add: example_args_def example_env_def sort_spots100 to_physical100)

lemma insort_key_constant:
  "\<forall>y \<in> set xs. f y = f x \<Longrightarrow> insort_key f x xs = x # xs"
  by (cases xs) simp_all

lemma sort_key_constant: "\<forall>x \<in> set xs. f x = c \<Longrightarrow> sort_key f xs = xs"
  by (induction xs) (simp_all add: insort_key_constant)

lemma collinear_rows: "\<forall>row \<in> set collinear_spots. length row = 4 \<and> row ! 3 = 1"
  by (auto simp: collinear_spots_def)

lemma length_collinear: "length collinear_spots = 100"
  by (simp add: collinear_spots_def)

lemma sort_collinear:
  "sort_spots collinear_spots 5000 = Inr (map (take 3) (rev collinear_spots))"
proof -
  have "sort_key (\<lambda>row. row ! 3) collinear_spots = collinear_spots"
    using collinear_rows by (intro sort_key_constant [where c = 1]) blast
  moreover have "\<not> (\<exists>row \<in> set collinear_spots. length row < 4)"
    using collinear_rows by auto
  ultimately show ?thesis
    by (simp add: sort_spots_def length_collinear)
qed

text \<open>
  Claim C3 does not hold of the code.  Whenever the fitter is reached (a hundred
  spots in each image, fifty matched pairs) and answers without a matrix, the
  function raises ValueError: it does not read the fitter's flag and takes the
  diagonal of the missing matrix.  Spots on a line are such a case.
\<close>

theorem ransac_raises_without_fit:
  fixes env :: "('ctx, 'corr, 'inl) ransac_env"
  assumes "100 \<le> length (case fix_spots args of None \<Rightarrow> blob_detection_fix env | Some s \<Rightarrow> s)"
    and "100 \<le> length (case mov_spots args of None \<Rightarrow> blob_detection_mov env | Some s \<Rightarrow> s)"
    and "sort_spots (case fix_spots args of None \<Rightarrow> blob_detection_fix env | Some s \<Rightarrow> s)
             (nspots args) = Inr fs_sorted"
    and "sort_spots (case mov_spots args of None \<Rightarrow> blob_detection_mov env | Some s \<Rightarrow> s)
             (nspots args) = Inr ms_sorted"
    and "to_physical fs_sorted (fix_spacing args) = Inr fs_phys"
    and "to_physical ms_sorted (mov_spacing args) = Inr ms_phys"
    and "match_points env fs_phys ms_phys
           (pairwise_correlation env (get_contexts_fix env fs_sorted)
              (get_contexts_mov env ms_sorted))
         = (fs_matched, ms_matched)"
    and "50 \<le> length fs_matched" and "50 \<le> length ms_matched"
    and "estimateAffine3D env fs_matched ms_matched = (r, None, inl)"
  shows "feature_point_ransac_affine_align args env = Inl ValueError"
  using assms by (simp add: feature_point_ransac_affine_align_def Let_def)

theorem ransac_raises_without_fit_witness:
  "feature_point_ransac_affine_align
      (example_args (Some collinear_spots) (Some collinear_spots) None)
      (example_env 100 (0, None, ())) = Inl ValueError"
  using ransac_raises_without_fit
    [where args = "example_args (Some collinear_spots) (Some collinear_spots) None"
      and env = "example_env 100 (0, None, ())"
      and fs_sorted = "map (take 3) (rev collinear_spots)"
      and ms_sorted = "map (take 3) (rev collinear_spots)"
      and fs_phys = "map (\<lambda>row. map2 (*) row [1, 1, 1]) (map (take 3) (rev collinear_spots))"
      and ms_phys = "map (\<lambda>row. map2 (*) row [1, 1, 1]) (map (take 3) (rev collinear_spots))"
      and fs_matched = "take 100 (map (\<lambda>row. map2 (*) row [1, 1, 1])
                                      (map (take 3) (rev collinear_spots)))"
      and ms_matched = "take 100 (map (\<lambda>row. map2 (*) row [1, 1, 1])
                                      (map (take 3) (rev collinear_spots)))"
      and r = 0 and inl = "()"]
  by (simp add: example_args_def example_env_def sort_collinear length_collinear to_physical_def)

section \<open>Properties of random_affine_search\<close>

lemma length_generate_params:
  "generate_params n mt mr ms msh d = Inr ps \<Longrightarrow> length ps = Suc n"
  by (auto simp: generate_params_def split: sum.splits)

lemma length_score_all: "score_all f ms = Inr vs \<Longrightarrow> length vs = length ms"
  by (induction ms arbitrary: vs) (auto split: sum.splits)

text \<open>
  Claim C1 does not hold of the code.  With \<open>random_iterations = 0\<close> there is one
  score, and \<^verbatim>\<open>np.argpartition(scores, nreturn)\<close> with \<open>nreturn = 1\<close> is out of
  bounds: whatever the images, the bounds and the evaluator, the function raises
  and returns no matrix.
\<close>

theorem random_affine_search_single_candidate_raises:
  "isl (random_affine_search (args\<lparr>random_iterations := 0, nreturn := 1\<rparr>) d to_matrix metric)"
  by (auto simp: random_affine_search_def Let_def np_argpartition_def
      split: sum.splits dest!: length_generate_params length_score_all)

lemma generate_params_example:
  "generate_params (Suc 0) B_None B_None B_None B_None d = Inr [identity_params, identity_params]"
  by (simp add: generate_params_def block_def scale_block_def identity_params_def)

lemma np_argsort_2: "np_argsort [v, v] = [0, 1]"
  by (simp add: np_argsort_def upt_rec)

lemma np_argsort_1: "np_argsort [v] = [0]"
  by (simp add: np_argsort_def)

lemma score_all_irm:
  "score_all (score_affine_irm metric) ms
     = Inr (map (\<lambda>a. case metric a of Inl e \<Rightarrow> WORST_POSSIBLE_SCORE | Inr v \<Rightarrow> v) ms)"
  by (induction ms) (auto simp: score_affine_irm_def split: sum.splits)

text \<open>
  Claim C6 does not hold of the code.  With an evaluator that fails on every
  candidate, the search with the patch-wise mutual information raises the
  evaluator's exception, while the same search with the engine scores the candidates
  and returns the first of them.
\<close>

theorem patch_mode_failure_propagates:
  "random_affine_search (example_search True B_None) d to_matrix (\<lambda>a. Inl RuntimeError)
     = Inl RuntimeError
   \<and> random_affine_search (example_search False B_None) d to_matrix (\<lambda>a. Inl RuntimeError)
     = Inr [to_matrix identity_params [4, 4, 4]]"
  by (simp add: random_affine_search_def example_search_def generate_params_example
      score_affine_patch_def score_affine_irm_def np_argpartition_def np_argsort_2 np_argsort_1
      Let_def)

lemma F_nth:
  "i < n \<Longrightarrow> j < 3 \<Longrightarrow> F n u c ! i ! j = 2 * (c ! j * u i j) - c ! j"
  by (simp add: F_def)

lemma F_length: "length (F n u c) = n" "i < n \<Longrightarrow> length (F n u c ! i) = 3"
  by (simp_all add: F_def)

lemma block_shape:
  assumes "block n mx u keep = Inr b"
  shows "length b = n" and "i < n \<Longrightarrow> length (b ! i) = 3"
  using assms by (auto simp: block_def F_length split: if_splits sum.splits)

lemma scale_block_shape:
  assumes "scale_block n mx u = Inr b"
  shows "length b = n" and "i < n \<Longrightarrow> length (b ! i) = 3"
  using assms by (auto simp: scale_block_def F_length split: if_splits sum.splits)

lemma block_nth:
  assumes "block n mx u keep = Inr b" and "i < n" and "j < 3"
  shows "truthy mx \<Longrightarrow> columns mx = Inr c \<Longrightarrow> b ! i ! j = 2 * (c ! j * u i j) - c ! j"
    and "\<not> truthy mx \<Longrightarrow> b ! i ! j = keep"
  using assms by (auto simp: block_def F_nth less_Suc_eq eval_nat_numeral split: if_splits sum.splits)

lemma columns_length: "columns mx = Inr c \<Longrightarrow> length c = 3"
  by (cases mx rule: columns.cases) auto

lemma scale_block_nth:
  assumes "scale_block n mx u = Inr b" and "i < n" and "j < 3"
  shows "truthy mx \<Longrightarrow> columns mx = Inr c \<Longrightarrow>
           b ! i ! j = exp (2 * (ln (c ! j) * u i j) - ln (c ! j))"
    and "\<not> truthy mx \<Longrightarrow> b ! i ! j = 1"
  using assms
  by (auto simp: scale_block_def F_nth F_length columns_length less_Suc_eq eval_nat_numeral
      split: if_splits sum.splits)

lemma generate_params_row:
  assumes "generate_params n mt mr ms msh d = Inr params" and "i < n" and "j < 3"
  shows "\<exists>t r s sh.
           block n mt (u_translation d) 0 = Inr t \<and> block n mr (u_rotation d) 0 = Inr r
         \<and> scale_block n ms (u_scale d) = Inr s \<and> block n msh (u_shear d) 0 = Inr sh
         \<and> params ! Suc i ! j = t ! i ! j \<and> params ! Suc i ! (3 + j) = r ! i ! j
         \<and> params ! Suc i ! (6 + j) = s ! i ! j \<and> params ! Suc i ! (9 + j) = sh ! i ! j"
  using assms
  by (auto simp: generate_params_def nth_append block_shape scale_block_shape
      split: sum.splits)

lemma F_abs:
  fixes c u :: real
  assumes "0 \<le> u" and "u < 1"
  shows "\<bar>2 * (c * u) - c\<bar> \<le> \<bar>c\<bar>"
proof -
  have "2 * (c * u) - c = c * (2 * u - 1)" by (simp add: algebra_simps)
  moreover have "\<bar>2 * u - 1\<bar> \<le> 1" using assms by (simp add: abs_le_iff)
  ultimately show ?thesis
    by (simp add: abs_mult mult_left_le)
qed

lemma scale_range:
  fixes c u :: real
  assumes "0 < c" and "0 \<le> u" and "u < 1"
  shows "min c (1 / c) \<le> exp (2 * (ln c * u) - ln c)"
    and "exp (2 * (ln c * u) - ln c) \<le> max c (1 / c)"
proof -
  let ?e = "2 * (ln c * u) - ln c"
  have e: "\<bar>?e\<bar> \<le> \<bar>ln c\<bar>" using assms(2,3) by (rule F_abs)
  have lo: "exp (- \<bar>ln c\<bar>) \<le> exp ?e" and hi: "exp ?e \<le> exp \<bar>ln c\<bar>"
    using e by (simp_all add: abs_le_iff)
  have "exp \<bar>ln c\<bar> \<le> max c (1 / c)"
    using assms(1) by (cases "0 \<le> ln c") (simp_all add: exp_minus inverse_eq_divide max_def)
  then show "exp ?e \<le> max c (1 / c)" using hi by linarith
  have "min c (1 / c) \<le> exp (- \<bar>ln c\<bar>)"
    using assms(1) by (cases "0 \<le> ln c") (simp_all add: exp_minus inverse_eq_divide min_def)
  then show "min c (1 / c) \<le> exp ?e" using lo by linarith
qed

lemma scale_range_exp:
  fixes c u :: real
  assumes "1 \<le> c" and "0 \<le> u" and "u < 1"
  shows "1 / exp c \<le> exp (2 * (ln c * u) - ln c)"
    and "exp (2 * (ln c * u) - ln c) \<le> exp c"
proof -
  have c: "0 < c" using assms(1) by simp
  have le: "c \<le> exp c" using exp_ge_add_one_self [of c] by linarith
  have "1 / c \<le> 1" using assms(1) by simp
  then have "1 / c \<le> c" using assms(1) by linarith
  then have mx: "max c (1 / c) = c" and mn: "min c (1 / c) = 1 / c"
    by (simp_all add: max_def min_def)
  have "exp (2 * (ln c * u) - ln c) \<le> c"
    using scale_range(2) [OF c assms(2,3)] mx by simp
  then show "exp (2 * (ln c * u) - ln c) \<le> exp c" using le by linarith
  have "1 / exp c \<le> 1 / c" using le c by (simp add: frac_le)
  moreover have "1 / c \<le> exp (2 * (ln c * u) - ln c)"
    using scale_range(1) [OF c assms(2,3)] mn by simp
  ultimately show "1 / exp c \<le> exp (2 * (ln c * u) - ln c)" by linarith
qed

lemma unit_interval_constant: "0 \<le> v \<Longrightarrow> v < 1 \<Longrightarrow> unit_interval (constant_draws v)"
  by (simp add: unit_interval_def constant_draws_def)

lemma exp_half_less_2: "exp (1 / 2 :: real) < 2"
proof (rule ccontr)
  assume "\<not> exp (1 / 2 :: real) < 2"
  then have "2 \<le> exp (1 / 2 :: real)" by simp
  then have "2 * 2 \<le> exp (1 / 2 :: real) * exp (1 / 2)"
    by (intro mult_mono) simp_all
  moreover have "exp (1 / 2 :: real) * exp (1 / 2) = exp 1"
    by (simp flip: exp_add)
  moreover have "exp (1 :: real) \<le> 3" by (rule exp_le)
  ultimately show False by simp
qed

lemma generate_params_half:
  "generate_params (Suc 0) B_None B_None (B_Scalar (1 / 2)) B_None (constant_draws 0)
     = Inr [identity_params, [0, 0, 0, 0, 0, 0, 2, 2, 2, 0, 0, 0]]"
  by (simp add: generate_params_def block_def scale_block_def F_def constant_draws_def
      upt_rec eval_nat_numeral exp_minus ln_div)

lemma generate_params_extreme:
  "generate_params (Suc 0) (B_Scalar 4) B_None (B_Scalar 2) (B_Tuple [1, 2, 3]) (constant_draws 0)
     = Inr [identity_params, [- 4, - 4, - 4, 0, 0, 0, 1 / 2, 1 / 2, 1 / 2, - 1, - 2, - 3]]"
  by (simp add: generate_params_def block_def scale_block_def F_def constant_draws_def
      upt_rec eval_nat_numeral exp_minus inverse_eq_divide)

text \<open>
  Claim C9, as amended.  For draws in \<open>[0, 1)\<close>, in every row but the first of the
  table and on every axis: a translation, rotation or shear parameter is at most the
  absolute value of its bound in absolute value, so it lies in \<open>[-bound, bound]\<close>
  for a bound that is not negative; a scale parameter with a positive bound \<open>b\<close> is
  positive and lies between \<open>min b (1/b)\<close> and \<open>max b (1/b)\<close>, and for \<open>b \<ge> 1\<close>,
  where that is \<open>[1/b, b]\<close>, also within \<open>[1/e^b, e^b]\<close>; a parameter whose bound
  is unset or zero keeps the identity's value.
\<close>

theorem candidate_parameters_within_bounds:
  assumes unit: "unit_interval d"
    and gen: "generate_params n mt mr ms msh d = Inr params"
    and i: "i < n" and j: "j < 3"
  shows "(\<forall>c. truthy mt \<and> columns mt = Inr c \<longrightarrow> \<bar>params ! Suc i ! j\<bar> \<le> \<bar>c ! j\<bar>)
       \<and> (\<forall>c. truthy mr \<and> columns mr = Inr c \<longrightarrow> \<bar>params ! Suc i ! (3 + j)\<bar> \<le> \<bar>c ! j\<bar>)
       \<and> (\<forall>c. truthy msh \<and> columns msh = Inr c \<longrightarrow> \<bar>params ! Suc i ! (9 + j)\<bar> \<le> \<bar>c ! j\<bar>)
       \<and> (\<forall>c. truthy ms \<and> columns ms = Inr c \<and> 0 < c ! j \<longrightarrow>
              0 < params ! Suc i ! (6 + j)
            \<and> min (c ! j) (1 / c ! j) \<le> params ! Suc i ! (6 + j)
            \<and> params ! Suc i ! (6 + j) \<le> max (c ! j) (1 / c ! j))
       \<and> (\<forall>c. truthy ms \<and> columns ms = Inr c \<and> 1 \<le> c ! j \<longrightarrow>
              1 / exp (c ! j) \<le> params ! Suc i ! (6 + j)
            \<and> params ! Suc i ! (6 + j) \<le> exp (c ! j))
       \<and> (\<not> truthy mt \<longrightarrow> params ! Suc i ! j = 0)
       \<and> (\<not> truthy mr \<longrightarrow> params ! Suc i ! (3 + j) = 0)
       \<and> (\<not> truthy msh \<longrightarrow> params ! Suc i ! (9 + j) = 0)
       \<and> (\<not> truthy ms \<longrightarrow> params ! Suc i ! (6 + j) = 1)"
proof -
  from generate_params_row [OF gen i j] obtain t r s sh where
    t: "block n mt (u_translation d) 0 = Inr t" and r: "block n mr (u_rotation d) 0 = Inr r"
    and s: "scale_block n ms (u_scale d) = Inr s" and sh: "block n msh (u_shear d) 0 = Inr sh"
    and pt: "params ! Suc i ! j = t ! i ! j" and pr: "params ! Suc i ! (3 + j) = r ! i ! j"
    and ps: "params ! Suc i ! (6 + j) = s ! i ! j" and psh: "params ! Suc i ! (9 + j) = sh ! i ! j"
    by blast
  have ut: "0 \<le> u_translation d i j" "u_translation d i j < 1"
    and ur: "0 \<le> u_rotation d i j" "u_rotation d i j < 1"
    and us: "0 \<le> u_scale d i j" "u_scale d i j < 1"
    and ush: "0 \<le> u_shear d i j" "u_shear d i j < 1"
    using unit by (simp_all add: unit_interval_def)
  have 1: "\<forall>c. truthy mt \<and> columns mt = Inr c \<longrightarrow> \<bar>params ! Suc i ! j\<bar> \<le> \<bar>c ! j\<bar>"
    using block_nth(1) [OF t i j] F_abs [OF ut] pt by simp
  have 2: "\<forall>c. truthy mr \<and> columns mr = Inr c \<longrightarrow> \<bar>params ! Suc i ! (3 + j)\<bar> \<le> \<bar>c ! j\<bar>"
    using block_nth(1) [OF r i j] F_abs [OF ur] pr by simp
  have 3: "\<forall>c. truthy msh \<and> columns msh = Inr c \<longrightarrow> \<bar>params ! Suc i ! (9 + j)\<bar> \<le> \<bar>c ! j\<bar>"
    using block_nth(1) [OF sh i j] F_abs [OF ush] psh by simp
  have 4: "\<forall>c. truthy ms \<and> columns ms = Inr c \<and> 0 < c ! j \<longrightarrow>
              0 < params ! Suc i ! (6 + j)
            \<and> min (c ! j) (1 / c ! j) \<le> params ! Suc i ! (6 + j)
            \<and> params ! Suc i ! (6 + j) \<le> max (c ! j) (1 / c ! j)"
    using scale_block_nth(1) [OF s i j] scale_range [OF _ us] ps by simp
  have 5: "\<forall>c. truthy ms \<and> columns ms = Inr c \<and> 1 \<le> c ! j \<longrightarrow>
              1 / exp (c ! j) \<le> params ! Suc i ! (6 + j)
            \<and> params ! Suc i ! (6 + j) \<le> exp (c ! j)"
    using scale_block_nth(1) [OF s i j] scale_range_exp [OF _ us] ps by simp
  have 6: "\<not> truthy mt \<longrightarrow> params ! Suc i ! j = 0"
    using block_nth(2) [OF t i j] pt by simp
  have 7: "\<not> truthy mr \<longrightarrow> params ! Suc i ! (3 + j) = 0"
    using block_nth(2) [OF r i j] pr by simp
  have 8: "\<not> truthy msh \<longrightarrow> params ! Suc i ! (9 + j) = 0"
    using block_nth(2) [OF sh i j] psh by simp
  have 9: "\<not> truthy ms \<longrightarrow> params ! Suc i ! (6 + j) = 1"
    using scale_block_nth(2) [OF s i j] ps by simp
  from 1 2 3 4 5 6 7 8 9 show ?thesis by blast
qed

theorem candidate_parameters_within_bounds_witness:
  "unit_interval (constant_draws 0)
   \<and> generate_params (Suc 0) (B_Scalar 4) B_None (B_Scalar 2) (B_Tuple [1, 2, 3])
         (constant_draws 0)
       = Inr [identity_params, [- 4, - 4, - 4, 0, 0, 0, 1 / 2, 1 / 2, 1 / 2, - 1, - 2, - 3]]
   \<and> 1 / exp 2 \<le> (1 / 2 :: real) \<and> (1 / 2 :: real) \<le> exp 2"
  using candidate_parameters_within_bounds
    [where d = "constant_draws 0" and n = "Suc 0" and mt = "B_Scalar 4" and mr = B_None
       and ms = "B_Scalar 2" and msh = "B_Tuple [1, 2, 3]" and i = 0 and j = 0
       and params = "[identity_params, [- 4, - 4, - 4, 0, 0, 0, 1 / 2, 1 / 2, 1 / 2, - 1, - 2, - 3]]",
     OF unit_interval_constant generate_params_extreme]
  by (simp add: unit_interval_constant generate_params_extreme)

text \<open>
  The claim C9 as it is worded fails for a scale bound below 1: with the bound 1/2
  and the draw 0 the scale parameter is 2, above \<open>e^(1/2)\<close>.
\<close>

theorem scale_bound_below_one_counterexample:
  "unit_interval (constant_draws 0)
   \<and> generate_params (Suc 0) B_None B_None (B_Scalar (1 / 2)) B_None (constant_draws 0)
       = Inr [identity_params, [0, 0, 0, 0, 0, 0, 2, 2, 2, 0, 0, 0]]
   \<and> \<not> ([0, 0, 0, 0, 0, 0, 2, 2, 2, 0, 0, 0] ! 6 \<le> exp (1 / 2 :: real))"
  using exp_half_less_2 by (simp add: unit_interval_constant generate_params_half)

section \<open>Properties of alignment_pipeline\<close>

lemma slice_Cons_Suc: "slice (x # l) (Suc a) (Suc b) = slice l a b"
  by (simp add: slice_def)

lemma slice_Cons_0: "slice (x # l) 0 (Suc b) = x # slice l 0 b"
  by (simp add: slice_def)

lemma slices_shift:
  "map (\<lambda>(a, b). slice (x # l) a b) (zip (map Suc as) (map Suc bs))
     = map (\<lambda>(a, b). slice l a b) (zip as bs)"
  by (induction as arbitrary: bs) (auto simp: slice_Cons_Suc zip_Cons1 split: list.splits)

lemma filter_upt_Suc:
  "filter P [0..<Suc m] = (if P 0 then [0] else []) @ map Suc (filter (\<lambda>i. P (Suc i)) [0..<m])"
proof -
  have "[0..<Suc m] = 0 # map Suc [0..<m]"
    by (simp add: upt_conv_Cons map_Suc_upt)
  then show ?thesis by (simp add: filter_map comp_def)
qed

lemma cuts_Cons:
  "map Suc (filter (\<lambda>i. f ((x # y # r) ! i) \<noteq> f ((x # y # r) ! Suc i)) [0..<length (x # y # r) - 1])
     = (if f x \<noteq> f y then [Suc 0] else [])
       @ map Suc (map Suc (filter (\<lambda>i. f ((y # r) ! i) \<noteq> f ((y # r) ! Suc i))
                                  [0..<length (y # r) - 1]))"
  using filter_upt_Suc [of "\<lambda>i. f ((x # y # r) ! i) \<noteq> f ((x # y # r) ! Suc i)" "length r"]
  by simp

lemma slices_are_runs:
  "xs \<noteq> [] \<Longrightarrow>
   map (\<lambda>(a, b). slice xs a b)
       (zip (0 # map Suc (filter (\<lambda>i. f (xs ! i) \<noteq> f (xs ! Suc i)) [0..<length xs - 1]))
            (map Suc (filter (\<lambda>i. f (xs ! i) \<noteq> f (xs ! Suc i)) [0..<length xs - 1])
               @ [length xs]))
     = maximal_runs f xs"
proof (induction f xs rule: maximal_runs.induct)
  case (1 f)
  then show ?case by simp
next
  case (2 f x)
  then show ?case by (simp add: slice_def)
next
  case (3 f x y xs)
  let ?cs = "map Suc (filter (\<lambda>i. f ((y # xs) ! i) \<noteq> f ((y # xs) ! Suc i)) [0..<length (y # xs) - 1])"
  have IH: "map (\<lambda>(a, b). slice (y # xs) a b) (zip (0 # ?cs) (?cs @ [length (y # xs)]))
              = maximal_runs f (y # xs)"
    using 3 by (cases "f x = f y") simp_all
  have shift: "map (\<lambda>(a, b). slice (x # y # xs) a b)
                 (zip (map Suc ?cs) (map Suc (tl (?cs @ [length (y # xs)]))))
             = map (\<lambda>(a, b). slice (y # xs) a b) (zip ?cs (tl (?cs @ [length (y # xs)])))"
    by (rule slices_shift)
  obtain b0 bs where bs: "?cs @ [length (y # xs)] = b0 # bs"
    by (cases "?cs @ [length (y # xs)]") auto
  show ?case
  proof (cases "f x = f y")
    case True
    have "map (\<lambda>(a, b). slice (x # y # xs) a b)
            (zip (0 # map Suc ?cs) (map Suc ?cs @ [length (x # y # xs)]))
          = slice (x # y # xs) 0 (Suc b0)
            # map (\<lambda>(a, b). slice (x # y # xs) a b) (zip (map Suc ?cs) (map Suc bs))"
    proof -
      have "map Suc ?cs @ [length (x # y # xs)] = map Suc (?cs @ [length (y # xs)])"
        by simp
      also have "\<dots> = Suc b0 # map Suc bs" unfolding bs by simp
      finally show ?thesis by simp
    qed
    also have "\<dots> = (x # slice (y # xs) 0 b0)
                     # map (\<lambda>(a, b). slice (y # xs) a b) (zip ?cs bs)"
      by (simp only: slice_Cons_0 slices_shift)
    finally have L: "map (\<lambda>(a, b). slice (x # y # xs) a b)
            (zip (0 # map Suc ?cs) (map Suc ?cs @ [length (x # y # xs)]))
          = (x # slice (y # xs) 0 b0) # map (\<lambda>(a, b). slice (y # xs) a b) (zip ?cs bs)" .
    have R: "maximal_runs f (y # xs)
               = slice (y # xs) 0 b0 # map (\<lambda>(a, b). slice (y # xs) a b) (zip ?cs bs)"
      using IH unfolding bs by simp
    show ?thesis
      using True L R cuts_Cons [of f x y xs] by simp
  next
    case False
    have "map (\<lambda>(a, b). slice (x # y # xs) a b)
            (zip (0 # Suc 0 # map Suc ?cs) ((Suc 0 # map Suc ?cs) @ [length (x # y # xs)]))
          = slice (x # y # xs) 0 (Suc 0)
            # map (\<lambda>(a, b). slice (x # y # xs) a b)
                (zip (map Suc (0 # ?cs)) (map Suc (?cs @ [length (y # xs)])))"
      by simp
    also have "\<dots> = [x] # map (\<lambda>(a, b). slice (y # xs) a b) (zip (0 # ?cs) (?cs @ [length (y # xs)]))"
      by (simp only: slices_shift) (simp add: slice_def)
    finally show ?thesis
      using False IH cuts_Cons [of f x y xs] by simp
  qed
qed

lemma concat_singletons:
  "concat (map (\<lambda>i. if P i then [g i] else []) is) = map g (filter P is)"
  by (induction "is") simp_all

lemma shape_changes_ragged:
  assumes "\<not> (\<forall>s \<in> set shapes. length s = length (hd shapes))"
  shows "shape_changes shapes
           = map Suc (filter (\<lambda>i. shapes ! i \<noteq> shapes ! Suc i) [0..<length shapes - 1])"
proof -
  have "shapes \<noteq> []" using assms by auto
  then have n: "length shapes \<noteq> 0" by simp
  show ?thesis
    unfolding shape_changes_def Let_def if_not_P [OF n] if_not_P [OF assms] by simp
qed

lemma differing_axes:
  assumes "length a = k" and "length b = k"
    and "length (filter (\<lambda>j. a ! j \<noteq> b ! j) [0..<k]) \<le> 1"
  shows "map (\<lambda>j. c) (filter (\<lambda>j. a ! j \<noteq> b ! j) [0..<k]) = (if a \<noteq> b then [c] else [])"
proof (cases "filter (\<lambda>j. a ! j \<noteq> b ! j) [0..<k]")
  case Nil
  then have "\<forall>j < k. a ! j = b ! j"
    by (auto simp: filter_empty_conv)
  then have "a = b" using assms(1,2) by (simp add: list_eq_iff_nth_eq)
  then show ?thesis using Nil by simp
next
  case (Cons j js)
  then have "js = []" using assms(3) by simp
  moreover have "j \<in> set (filter (\<lambda>j. a ! j \<noteq> b ! j) [0..<k])" using Cons by simp
  then have "a ! j \<noteq> b ! j" by simp
  then have "a \<noteq> b" by auto
  ultimately show ?thesis using Cons by simp
qed

lemma shape_changes_uniform:
  assumes ne: "shapes \<noteq> []"
    and uni: "\<forall>s \<in> set shapes. length s = length (hd shapes)"
    and one: "\<forall>i. Suc i < length shapes \<longrightarrow>
                length (filter (\<lambda>j. shapes ! i ! j \<noteq> shapes ! Suc i ! j)
                          [0..<length (hd shapes)]) \<le> 1"
  shows "shape_changes shapes
           = map Suc (filter (\<lambda>i. shapes ! i \<noteq> shapes ! Suc i) [0..<length shapes - 1])"
proof -
  let ?k = "length (hd shapes)"
  have row: "map (\<lambda>j. i + 1) (filter (\<lambda>j. shapes ! i ! j \<noteq> shapes ! (i + 1) ! j) [0..<?k])
               = (if shapes ! i \<noteq> shapes ! Suc i then [Suc i] else [])"
    if "i \<in> set [0..<length shapes - 1]" for i
  proof -
    from that have i: "Suc i < length shapes" by auto
    then have "length (shapes ! i) = ?k" and "length (shapes ! Suc i) = ?k"
      using uni by simp_all
    moreover have "length (filter (\<lambda>j. shapes ! i ! j \<noteq> shapes ! Suc i ! j) [0..<?k]) \<le> 1"
      using one i by blast
    ultimately show ?thesis
      using differing_axes [of "shapes ! i" ?k "shapes ! Suc i" "Suc i"] by simp
  qed
  have "shape_changes shapes
          = concat (map (\<lambda>i. map (\<lambda>j. i + 1)
                               (filter (\<lambda>j. shapes ! i ! j \<noteq> shapes ! (i + 1) ! j) [0..<?k]))
                        [0..<length shapes - 1])"
  proof -
    from ne have n: "length shapes \<noteq> 0" by simp
    show ?thesis
      by (simp only: shape_changes_def Let_def if_not_P [OF n] if_P [OF uni])
  qed
  also have "\<dots> = concat (map (\<lambda>i. if shapes ! i \<noteq> shapes ! Suc i then [Suc i] else [])
                               [0..<length shapes - 1])"
    by (intro arg_cong [where f = concat] map_cong refl row)
  also have "\<dots> = map Suc (filter (\<lambda>i. shapes ! i \<noteq> shapes ! Suc i) [0..<length shapes - 1])"
    by (rule concat_singletons)
  finally show ?thesis .
qed

lemma compressed_slices_runs:
  assumes ne: "new_transforms \<noteq> []"
    and one: "(\<forall>x \<in> set new_transforms. length (shape x) = length (shape (hd new_transforms)))
        \<longrightarrow> (\<forall>i. Suc i < length new_transforms \<longrightarrow>
               length (filter (\<lambda>j. shape (new_transforms ! i) ! j
                                    \<noteq> shape (new_transforms ! Suc i) ! j)
                         [0..<length (shape (hd new_transforms))]) \<le> 1)"
  shows "compressed_slices shape new_transforms = maximal_runs shape new_transforms"
proof -
  let ?shapes = "map shape new_transforms"
  let ?cuts = "map Suc (filter (\<lambda>i. shape (new_transforms ! i) \<noteq> shape (new_transforms ! Suc i))
                           [0..<length new_transforms - 1])"
  have ne': "?shapes \<noteq> []" using ne by simp
  have hd: "hd ?shapes = shape (hd new_transforms)" using ne by (simp add: hd_map)
  have flt: "filter (\<lambda>i. ?shapes ! i \<noteq> ?shapes ! Suc i) [0..<length ?shapes - 1]
               = filter (\<lambda>i. shape (new_transforms ! i) \<noteq> shape (new_transforms ! Suc i))
                   [0..<length new_transforms - 1]"
    by (rule filter_cong) auto
  have cuts: "shape_changes ?shapes = ?cuts"
  proof (cases "\<forall>s \<in> set ?shapes. length s = length (hd ?shapes)")
    case True
    have U: "\<forall>x \<in> set new_transforms. length (shape x) = length (shape (hd new_transforms))"
    proof
      fix x assume "x \<in> set new_transforms"
      then have "shape x \<in> set ?shapes" by simp
      with True have "length (shape x) = length (hd ?shapes)" by blast
      then show "length (shape x) = length (shape (hd new_transforms))" by (simp only: hd)
    qed
    with one have O: "\<forall>i. Suc i < length new_transforms \<longrightarrow>
               length (filter (\<lambda>j. shape (new_transforms ! i) ! j
                                    \<noteq> shape (new_transforms ! Suc i) ! j)
                         [0..<length (shape (hd new_transforms))]) \<le> 1"
      by blast
    have O': "\<forall>i. Suc i < length ?shapes \<longrightarrow>
               length (filter (\<lambda>j. ?shapes ! i ! j \<noteq> ?shapes ! Suc i ! j)
                         [0..<length (hd ?shapes)]) \<le> 1"
    proof (intro allI impI)
      fix i assume "Suc i < length ?shapes"
      then have i: "Suc i < length new_transforms" by simp
      with O have "length (filter (\<lambda>j. shape (new_transforms ! i) ! j
                                    \<noteq> shape (new_transforms ! Suc i) ! j)
                         [0..<length (shape (hd new_transforms))]) \<le> 1"
        by blast
      then show "length (filter (\<lambda>j. ?shapes ! i ! j \<noteq> ?shapes ! Suc i ! j)
                         [0..<length (hd ?shapes)]) \<le> 1"
        using i by (simp add: hd)
    qed
    show ?thesis
      using shape_changes_uniform [OF ne' True O'] by (simp only: flt)
  next
    case False
    show ?thesis
      using shape_changes_ragged [OF False] by (simp only: flt)
  qed
  have "compressed_slices shape new_transforms
      = map (\<lambda>(a, b). slice new_transforms a b)
          (zip (0 # ?cuts) (?cuts @ [length new_transforms]))"
    unfolding compressed_slices_def Let_def cuts by (simp add: butlast_append)
  also have "\<dots> = maximal_runs shape new_transforms"
    by (simp only: slices_are_runs [OF ne, of shape])
  finally show ?thesis .
qed


lemma concat_maximal_runs: "concat (maximal_runs f xs) = xs"
  by (induction f xs rule: maximal_runs.induct) (auto split: list.splits)

text \<open>
  On a non-empty list of results, whose adjacent shapes differ in at most one axis
  when all have one rank, the format \<open>compressed\<close> hands the maximal runs to the
  composer, one after the other.
\<close>

lemma compressed_pipeline_composes_runs:
  assumes run: "run_steps align kwargs static_transform_list [] steps = Inr new_transforms"
    and ne: "new_transforms \<noteq> []"
    and one: "(\<forall>x \<in> set new_transforms. length (shape x) = length (shape (hd new_transforms)))
        \<longrightarrow> (\<forall>i. Suc i < length new_transforms \<longrightarrow>
               length (filter (\<lambda>j. shape (new_transforms ! i) ! j
                                    \<noteq> shape (new_transforms ! Suc i) ! j)
                         [0..<length (shape (hd new_transforms))]) \<le> 1)"
  shows "alignment_pipeline align shape compose_transform_list steps static_transform_list
           ''compressed'' kwargs
         = (case compose_each compose_transform_list (maximal_runs shape new_transforms) of
              Inl e \<Rightarrow> Inl e
            | Inr ts \<Rightarrow> Inr (Transforms ts))"
  using compressed_slices_runs [OF ne one]
  by (simp add: alignment_pipeline_def run compressed_def)

lemma run_six_steps:
  "run_steps (example_stage [4, 4]) Map.empty [] []
     (example_steps [''random'', ''affine'', ''deform'', ''deform'', ''affine'', ''deform''])
   = Inr [(''r'', [4, 4]), (''a'', [4, 4]), (''d'', [8, 8, 8, 3]), (''d'', [8, 8, 8, 3]),
          (''a'', [4, 4]), (''d'', [8, 8, 8, 3])]"
  by (simp add: example_steps_def example_stage_def align_key_def)

lemma six_results_ragged:
  "\<not> (\<forall>x \<in> set [(''r'', [4, 4]), (''a'', [4, 4]), (''d'', [8, 8, 8, 3]), (''d'', [8, 8, 8, 3]),
                     (''a'', [4, 4]), (''d'', [8, 8, 8, 3 :: nat])].
         length (snd x)
           = length (snd (hd [(''r'', [4, 4]), (''a'', [4, 4]), (''d'', [8, 8, 8, 3]),
                              (''d'', [8, 8, 8, 3]), (''a'', [4, 4]), (''d'', [8, 8, 8, 3])])))"
  by simp

lemma six_results_runs:
  "maximal_runs snd [(''r'', [4, 4]), (''a'', [4, 4]), (''d'', [8, 8, 8, 3]), (''d'', [8, 8, 8, 3]),
                     (''a'', [4, 4]), (''d'', [8, 8, 8, 3 :: nat])]
     = [[(''r'', [4, 4]), (''a'', [4, 4])], [(''d'', [8, 8, 8, 3]), (''d'', [8, 8, 8, 3])],
        [(''a'', [4, 4])], [(''d'', [8, 8, 8, 3])]]"
  by simp

text \<open>The six kinds of the docstring give four transforms.\<close>

lemma six_steps_four_transforms:
  "alignment_pipeline (example_stage [4, 4]) snd example_compose
      (example_steps [''random'', ''affine'', ''deform'', ''deform'', ''affine'', ''deform''])
      [] ''compressed'' Map.empty
     = Inr (Transforms [(''ra'', [4, 4]), (''dd'', [8, 8, 8, 3]), (''a'', [4, 4]),
                        (''d'', [8, 8, 8, 3])])"
proof -
  have "alignment_pipeline (example_stage [4, 4]) snd example_compose
      (example_steps [''random'', ''affine'', ''deform'', ''deform'', ''affine'', ''deform''])
      [] ''compressed'' Map.empty
     = (case compose_each example_compose
         (maximal_runs snd [(''r'', [4, 4]), (''a'', [4, 4]), (''d'', [8, 8, 8, 3]),
                            (''d'', [8, 8, 8, 3]), (''a'', [4, 4]), (''d'', [8, 8, 8, 3])]) of
          Inl e \<Rightarrow> Inl e
        | Inr ts \<Rightarrow> Inr (Transforms ts))"
    using compressed_pipeline_composes_runs [OF run_six_steps, of snd example_compose]
      six_results_ragged
    by blast
  then show ?thesis
    by (simp only: six_results_runs) (simp add: example_compose_def)
qed

lemma run_two_steps:
  "run_steps (example_stage [3, 3]) Map.empty [] [] (example_steps [''affine'', ''ransac''])
     = Inr [(''a'', [4, 4]), (''s'', [3, 3])]"
  by (simp add: example_steps_def example_stage_def align_key_def)

lemma shape_changes_two_axes: "shape_changes [[4, 4], [3, 3]] = [1, 1]"
  by (simp add: shape_changes_def eval_nat_numeral)

lemma slices_two_axes:
  "compressed_slices snd [(''a'', [4, 4]), (''s'', [3, 3 :: nat])]
     = [[(''a'', [4, 4])], [], [(''s'', [3, 3])]]"
  by (simp add: compressed_slices_def shape_changes_two_axes slice_def)

lemma run_no_steps: "run_steps align kwargs static_transform_list [] [] = Inr []"
  by simp

lemma slices_no_results: "compressed_slices shape [] = [[]]"
  by (simp add: compressed_slices_def shape_changes_def slice_def)

lemma no_steps_raise:
  "alignment_pipeline align shape example_compose (example_steps []) static_transform_list
     ''compressed'' kwargs = Inl IndexError"
  by (simp add: alignment_pipeline_def example_steps_def compressed_def slices_no_results
      example_compose_def)

text \<open>
  Claim C8 does not hold of the code.  The results of two steps, a 4x4 matrix and a
  3x3 matrix (the default that the feature stage hands back when it finds too few
  spots), make two maximal runs of equal shape.  The code compares the two shapes
  entry by entry, marks the boundary between them twice and hands the composer
  three slices, the middle one empty, whatever the composer is; with a composer that
  raises on the empty list the pipeline raises and returns no transform.  So it does
  for a pipeline of no steps, which has no run at all.
\<close>

theorem compressed_marks_boundary_twice:
  "run_steps (example_stage [3, 3]) Map.empty [] [] (example_steps [''affine'', ''ransac''])
     = Inr [(''a'', [4, 4]), (''s'', [3, 3])]
   \<and> maximal_runs snd [(''a'', [4, 4]), (''s'', [3, 3 :: nat])]
     = [[(''a'', [4, 4])], [(''s'', [3, 3])]]
   \<and> alignment_pipeline (example_stage [3, 3]) snd compose_transform_list
        (example_steps [''affine'', ''ransac'']) [] ''compressed'' Map.empty
     = (case compose_each compose_transform_list
               [[(''a'', [4, 4])], [], [(''s'', [3, 3])]] of
          Inl e \<Rightarrow> Inl e
        | Inr ts \<Rightarrow> Inr (Transforms ts))
   \<and> alignment_pipeline (example_stage [3, 3]) snd example_compose
        (example_steps [''affine'', ''ransac'']) [] ''compressed'' Map.empty
     = Inl IndexError
   \<and> alignment_pipeline (example_stage [3, 3]) snd example_compose
        (example_steps []) [] ''compressed'' Map.empty
     = Inl IndexError"
proof (intro conjI)
  show "run_steps (example_stage [3, 3]) Map.empty [] [] (example_steps [''affine'', ''ransac''])
     = Inr [(''a'', [4, 4]), (''s'', [3, 3])]"
    by (rule run_two_steps)
  show "maximal_runs snd [(''a'', [4, 4]), (''s'', [3, 3 :: nat])]
     = [[(''a'', [4, 4])], [(''s'', [3, 3])]]"
    by simp
  show "alignment_pipeline (example_stage [3, 3]) snd compose_transform_list
        (example_steps [''affine'', ''ransac'']) [] ''compressed'' Map.empty
     = (case compose_each compose_transform_list
               [[(''a'', [4, 4])], [], [(''s'', [3, 3])]] of
          Inl e \<Rightarrow> Inl e
        | Inr ts \<Rightarrow> Inr (Transforms ts))"
    by (simp add: alignment_pipeline_def run_two_steps compressed_def slices_two_axes)
  show "alignment_pipeline (example_stage [3, 3]) snd example_compose
        (example_steps [''affine'', ''ransac'']) [] ''compressed'' Map.empty
     = Inl IndexError"
    by (simp add: alignment_pipeline_def run_two_steps compressed_def slices_two_axes
        example_compose_def)
  show "alignment_pipeline (example_stage [3, 3]) snd example_compose
        (example_steps []) [] ''compressed'' Map.empty
     = Inl IndexError"
    by (rule no_steps_raise)
qed

end
